theory Spec2Isabelle
  imports Main
begin

section \<open>Outcomes of a call\<close>

text \<open>
  A call of the C++ code either returns, or leaves by a \<^verbatim>\<open>std::logic_error\<close>, or is
  stopped by a failed \<^verbatim>\<open>assert\<close>, or dereferences the null constraint graph.  The four
  assertions of graph-path-validation.cc that depend on run-time data are named; the
  assertion \<^verbatim>\<open>assert (path)\<close> always holds here, because a path argument of the model
  is a path and never a null pointer.
\<close>

datatype assertion =
    Assert_not_reverse       \<comment> \<open>line 68: \<^verbatim>\<open>assert (!reverse && ...)\<close>\<close>
  | Assert_constraintGraph   \<comment> \<open>line 39: \<^verbatim>\<open>assert (constraintGraph_)\<close>\<close>
  | Assert_initial_node      \<comment> \<open>line 40: \<^verbatim>\<open>assert (constraintGraph_->getNode (validPart->initial ()))\<close>\<close>
  | Assert_end_node          \<comment> \<open>line 41: \<^verbatim>\<open>assert (constraintGraph_->getNode (validPart->end ()))\<close>\<close>

datatype failure =
    AssertionFailed assertion
  | LogicError string        \<comment> \<open>\<^verbatim>\<open>std::logic_error\<close> with its message\<close>
  | NullDereference          \<comment> \<open>\<^verbatim>\<open>constraintGraph_->...\<close> on the null pointer\<close>

type_synonym 'r outcome = "failure + 'r"

section \<open>Paths and the external collaborators\<close>

text \<open>
  A path is either a composite path (hpp-core's \<^verbatim>\<open>PathVector\<close>, with its two output
  sizes and its sub-paths, which may be composite again) or any other path.  The
  operations of hpp-core's \<^verbatim>\<open>Path\<close> that the code calls are not part of this
  repository; they are parameters:
  \<^item> \<open>timeRange\<close>: the interval of definition;
  \<^item> \<open>config_at\<close>: \<^verbatim>\<open>Path::operator() (q, t)\<close>, \<open>None\<close> when it returns false (the
    projection onto the constraints of the path failed);
  \<^item> \<open>extract_path\<close>: \<^verbatim>\<open>Path::extract\<close>; \<open>copy\<close>: \<^verbatim>\<open>Path::copy\<close>;
  \<^item> \<open>initial\<close>, \<open>end_config\<close>: \<^verbatim>\<open>Path::initial\<close> and \<^verbatim>\<open>Path::end\<close>.
\<close>

datatype 'a path =
    Atomic 'a
  | PathVector nat nat "'a path list"

record ('a, 'q, 't) path_ops =
  timeRange :: "'a path \<Rightarrow> 't \<times> 't"
  config_at :: "'a path \<Rightarrow> 't \<Rightarrow> 'q option"
  extract_path :: "'a path \<Rightarrow> 't \<times> 't \<Rightarrow> 'a path"
  copy :: "'a path \<Rightarrow> 'a path"
  initial :: "'a path \<Rightarrow> 'q"
  end_config :: "'a path \<Rightarrow> 'q"

text \<open>
  The constraint graph as graph-path-validation.cc uses it: \<^verbatim>\<open>getNode\<close> either throws a
  \<^verbatim>\<open>std::logic_error\<close> (\<open>Inl\<close> of its message) or returns a node pointer, which may be
  null (\<open>Inr None\<close>).  Node pointers are compared with \<^verbatim>\<open>==\<close>.
\<close>

record ('q, 'n) graph =
  getNode :: "'q \<Rightarrow> string + 'n option"

text \<open>
  The members of \<^verbatim>\<open>GraphPathValidation\<close>: \<open>pathValidation\<close> is \<^verbatim>\<open>pathValidation_\<close>, the
  wrapped validator, as the function from a path and the direction to its result and
  the part it found valid; \<open>constraintGraph\<close> is \<^verbatim>\<open>constraintGraph_\<close>, a pointer that may
  be null.  The validation report, an output argument that the code only passes on, is
  left out.
\<close>

record ('a, 'q, 'n) graph_path_validation =
  pathValidation :: "'a path \<Rightarrow> bool \<Rightarrow> bool \<times> 'a path"
  constraintGraph :: "('q, 'n) graph option"

definition create ::
  "('a path \<Rightarrow> bool \<Rightarrow> bool \<times> 'a path) \<Rightarrow> ('a, 'q, 'n) graph_path_validation" where
  "create pv = \<lparr>pathValidation = pv, constraintGraph = None\<rparr>"

section \<open>GraphPathValidation\<close>

text \<open>\<^verbatim>\<open>if (!p (q, t)) throw std::logic_error (msg);\<close>\<close>

definition project ::
  "('a, 'q, 't) path_ops \<Rightarrow> 'a path \<Rightarrow> 't \<Rightarrow> string \<Rightarrow> 'q outcome" where
  "project ops p t msg =
     (case config_at ops p t of None \<Rightarrow> Inl (LogicError msg) | Some q \<Rightarrow> Inr q)"

text \<open>\<^verbatim>\<open>constraintGraph_->getNode (q)\<close>\<close>

definition graph_getNode ::
  "('a, 'q, 'n) graph_path_validation \<Rightarrow> 'q \<Rightarrow> 'n option outcome" where
  "graph_getNode V q =
     (case constraintGraph V of
        None \<Rightarrow> Inl NullDereference
      | Some g \<Rightarrow> (case getNode g q of Inl msg \<Rightarrow> Inl (LogicError msg) | Inr n \<Rightarrow> Inr n))"

text \<open>
  \<^verbatim>\<open>impl_validate\<close> on a \<^verbatim>\<open>PathPtr_t\<close> (lines 102-170) and on a \<^verbatim>\<open>PathVectorPtr_t\<close>
  (lines 62-100), with the two loops of the latter as functions of the loop index.
  \<open>ndebug\<close> tells whether the assertions are compiled out.  The forward loop runs
  while \<open>i \<noteq> numberPaths\<close>, counting up from 0, which is \<open>i < length ps\<close>; the reverse
  loop runs while \<open>i \<ge> 0\<close>, counting down from \<open>numberPaths - 1\<close>, so that \<open>i\<close> is a rank
  of the path whenever \<^verbatim>\<open>pathAtRank (i)\<close> is called, which the second half of its
  condition says.  The variable \<^verbatim>\<open>q\<close> is written by each projection before it is read.
  The messages written by \<^verbatim>\<open>hppDout\<close> are not modelled.
\<close>

function
  impl_validate ::
    "bool \<Rightarrow> ('a, 'q, 't) path_ops \<Rightarrow> ('a, 'q, 'n) graph_path_validation \<Rightarrow>
     'a path \<Rightarrow> bool \<Rightarrow> (bool \<times> 'a path) outcome"
  and impl_validate_forward ::
    "bool \<Rightarrow> ('a, 'q, 't) path_ops \<Rightarrow> ('a, 'q, 'n) graph_path_validation \<Rightarrow>
     nat \<Rightarrow> nat \<Rightarrow> 'a path list \<Rightarrow> nat \<Rightarrow> (bool \<times> 'a path) outcome"
  and impl_validate_reverse ::
    "bool \<Rightarrow> ('a, 'q, 't) path_ops \<Rightarrow> ('a, 'q, 'n) graph_path_validation \<Rightarrow>
     nat \<Rightarrow> nat \<Rightarrow> 'a path list \<Rightarrow> int \<Rightarrow> (bool \<times> 'a path) outcome"
where
  "impl_validate ndebug ops V (PathVector os ods ps) reverse =
     (if reverse then
        (if \<not> ndebug then Inl (AssertionFailed Assert_not_reverse)
         else impl_validate_reverse ndebug ops V os ods ps (int (length ps) - 1))
      else impl_validate_forward ndebug ops V os ods ps 0)"
| "impl_validate ndebug ops V (Atomic a) reverse =
     (let path = Atomic a in
      case pathValidation V path reverse of
        (True, pathNoCollision) \<Rightarrow> Inr (True, path)
      | (False, pathNoCollision) \<Rightarrow>
         (let newTR = timeRange ops pathNoCollision; oldTR = timeRange ops path in
          case project ops pathNoCollision (fst newTR)
                 ''Initial configuration of the valid part cannot be projected.'' of
            Inl e \<Rightarrow> Inl e
          | Inr q \<Rightarrow>
          (case graph_getNode V q of
            Inl e \<Rightarrow> Inl e
          | Inr origNode \<Rightarrow>
          (case project ops pathNoCollision (snd newTR)
                 ''End configuration of the valid part cannot be projected.'' of
            Inl e \<Rightarrow> Inl e
          | Inr q \<Rightarrow>
          (case graph_getNode V q of
            Inl (LogicError e) \<Rightarrow> Inr (False, extract_path ops path (fst oldTR, fst oldTR))
          | Inl e \<Rightarrow> Inl e
          | Inr destNode \<Rightarrow>
          (case project ops path (fst oldTR)
                 ''Initial configuration of the path to be validated cannot be projected.'' of
            Inl e \<Rightarrow> Inl e
          | Inr q \<Rightarrow>
          (case graph_getNode V q of
            Inl e \<Rightarrow> Inl e
          | Inr oldOnode \<Rightarrow>
          (case project ops path (snd oldTR)
                 ''End configuration of the path to be validated cannot be projected.'' of
            Inl e \<Rightarrow> Inl e
          | Inr q \<Rightarrow>
          (case graph_getNode V q of
            Inl e \<Rightarrow> Inl e
          | Inr oldDnode \<Rightarrow>
             if origNode = oldOnode \<and> destNode = oldDnode
             then Inr (False, pathNoCollision)
             else Inr (False, extract_path ops path (fst oldTR, fst oldTR)))))))))))"
| "impl_validate_forward ndebug ops V os ods ps i =
     (if i < length ps then
        (case impl_validate ndebug ops V (ps ! i) False of
           Inl e \<Rightarrow> Inl e
         | Inr (True, validSubPart) \<Rightarrow> impl_validate_forward ndebug ops V os ods ps (i + 1)
         | Inr (False, validSubPart) \<Rightarrow>
             Inr (False,
               PathVector os ods (map (\<lambda>v. copy ops (ps ! v)) [0..<i] @ [validSubPart])))
      else Inr (True, PathVector os ods ps))"
| "impl_validate_reverse ndebug ops V os ods ps i =
     (if 0 \<le> i \<and> i < int (length ps) then
        (case impl_validate ndebug ops V (ps ! nat i) True of
           Inl e \<Rightarrow> Inl e
         | Inr (True, validSubPart) \<Rightarrow> impl_validate_reverse ndebug ops V os ods ps (i - 1)
         | Inr (False, validSubPart) \<Rightarrow>
             Inr (False,
               PathVector os ods
                 (map (\<lambda>v. copy ops (ps ! nat i)) (rev [nat i + 1..<length ps])
                  @ [validSubPart])))
      else Inr (True, PathVector os ods ps))"
  by pat_completeness auto
termination
proof -
  have nth_size: "k < length xs \<Longrightarrow> size (xs ! k) < size_list size xs"
    for xs :: "'a path list" and k
  proof (induction xs arbitrary: k)
    case Nil
    then show ?case by simp
  next
    case (Cons x xs)
    show ?case
    proof (cases k)
      case 0
      then show ?thesis by simp
    next
      case (Suc j)
      with Cons.prems have "j < length xs" by simp
      from Cons.IH [OF this] show ?thesis using Suc by simp
    qed
  qed
  show ?thesis
  proof (relation "measures
      [\<lambda>x. case x of
          Inl (ndebug, ops, V, p, reverse) \<Rightarrow> size p
        | Inr (Inl (ndebug, ops, V, os, ods, ps, i)) \<Rightarrow> size_list size ps
        | Inr (Inr (ndebug, ops, V, os, ods, ps, i)) \<Rightarrow> size_list size ps,
       \<lambda>x. case x of
          Inl (ndebug, ops, V, p, reverse) \<Rightarrow> 0
        | Inr (Inl (ndebug, ops, V, os, ods, ps, i)) \<Rightarrow> Suc (length ps - i)
        | Inr (Inr (ndebug, ops, V, os, ods, ps, i)) \<Rightarrow> Suc (nat (i + 1))]", goal_cases)
    case 1
    show ?case by simp
  next
    case (2 ndebug ops V os ods ps reverse)
    show ?case by simp
  next
    case (3 ndebug ops V os ods ps reverse)
    show ?case by simp
  next
    case (4 ndebug ops V os ods ps i)
    then show ?case using nth_size [of i ps] by simp
  next
    case (5 ndebug ops V os ods ps i x validSubPart)
    then show ?case by simp
  next
    case (6 ndebug ops V os ods ps i)
    then have "nat i < length ps" by linarith
    from nth_size [OF this] show ?case by simp
  next
    case (7 ndebug ops V os ods ps i x validSubPart)
    then show ?case by simp
  qed
qed

text \<open>
  The public operations.  \<open>validate\<close> is the overload without a report (lines 33-43):
  after \<^verbatim>\<open>impl_validate\<close> has returned it asserts that the constraint graph is set and
  that \<^verbatim>\<open>getNode\<close> gives a node for the initial and for the end configuration of the
  valid part; \<^verbatim>\<open>getNode\<close> may throw there.  \<open>validate_with_report\<close> stands for the two
  overloads that take a report (lines 45-60): they return what \<^verbatim>\<open>impl_validate\<close>
  returns.
\<close>

definition validate ::
  "bool \<Rightarrow> ('a, 'q, 't) path_ops \<Rightarrow> ('a, 'q, 'n) graph_path_validation \<Rightarrow>
   'a path \<Rightarrow> bool \<Rightarrow> (bool \<times> 'a path) outcome" where
  "validate ndebug ops V path reverse =
     (case impl_validate ndebug ops V path reverse of
        Inl e \<Rightarrow> Inl e
      | Inr (success, validPart) \<Rightarrow>
          if ndebug then Inr (success, validPart)
          else
            (case constraintGraph V of
               None \<Rightarrow> Inl (AssertionFailed Assert_constraintGraph)
             | Some g \<Rightarrow>
                 (case getNode g (initial ops validPart) of
                    Inl msg \<Rightarrow> Inl (LogicError msg)
                  | Inr None \<Rightarrow> Inl (AssertionFailed Assert_initial_node)
                  | Inr (Some n) \<Rightarrow>
                      (case getNode g (end_config ops validPart) of
                         Inl msg \<Rightarrow> Inl (LogicError msg)
                       | Inr None \<Rightarrow> Inl (AssertionFailed Assert_end_node)
                       | Inr (Some n') \<Rightarrow> Inr (success, validPart)))))"

definition validate_with_report ::
  "bool \<Rightarrow> ('a, 'q, 't) path_ops \<Rightarrow> ('a, 'q, 'n) graph_path_validation \<Rightarrow>
   'a path \<Rightarrow> bool \<Rightarrow> (bool \<times> 'a path) outcome" where
  "validate_with_report ndebug ops V path reverse = impl_validate ndebug ops V path reverse"

section \<open>GraphSteeringMethod\<close>

text \<open>
  The constraint graph as graph-steering-method.cc uses it: \<^verbatim>\<open>getState\<close> and
  \<^verbatim>\<open>getEdges\<close> either throw a \<^verbatim>\<open>std::logic_error\<close> (\<open>Inl\<close> of its message) or return.
  \<^verbatim>\<open>Edge::build (path, q1, q2)\<close> is a parameter: it takes the current value of the
  path variable (a pointer, \<open>None\<close> when null) and gives its result and the new value
  of the variable.
\<close>

record ('q, 's, 'e) steering_graph =
  getState :: "'q \<Rightarrow> string + 's"
  getEdges :: "'s \<Rightarrow> 's \<Rightarrow> string + 'e list"

text \<open>The loop of lines 83-88, on the remaining edges and the path variable.\<close>

function build_loop ::
  "('e \<Rightarrow> 'p option \<Rightarrow> 'q \<Rightarrow> 'q \<Rightarrow> bool \<times> 'p option) \<Rightarrow> 'q \<Rightarrow> 'q \<Rightarrow>
   'e list \<Rightarrow> 'p option \<Rightarrow> 'p option" where
  "build_loop build q1 q2 possibleEdges path =
     (if possibleEdges \<noteq> [] then
        (case build (last possibleEdges) path q1 q2 of
           (True, path') \<Rightarrow> path'
         | (False, path') \<Rightarrow> build_loop build q1 q2 (butlast possibleEdges) path')
      else None)"
  by pat_completeness auto
termination
  by (relation "measure (\<lambda>(build, q1, q2, possibleEdges, path). length possibleEdges)")
    (auto simp: less_Suc_eq_le)

text \<open>
  \<^verbatim>\<open>impl_compute\<close> (lines 68-90).  The inner \<open>case\<close> is the body of the \<^verbatim>\<open>try\<close> block;
  its handler returns the null path.  C++ leaves the order of the two calls of
  \<^verbatim>\<open>getState\<close> open; as each can only throw a \<^verbatim>\<open>std::logic_error\<close>, which the handler
  catches, the order does not change the result.  The graph of the problem is taken
  as set.
\<close>

definition impl_compute ::
  "('q, 's, 'e) steering_graph \<Rightarrow> ('e \<Rightarrow> 'p option \<Rightarrow> 'q \<Rightarrow> 'q \<Rightarrow> bool \<times> 'p option) \<Rightarrow>
   'q \<Rightarrow> 'q \<Rightarrow> 'p option" where
  "impl_compute graph build q1 q2 =
     (case (case getState graph q1 of
              Inl e \<Rightarrow> Inl e
            | Inr s1 \<Rightarrow>
                (case getState graph q2 of
                   Inl e \<Rightarrow> Inl e
                 | Inr s2 \<Rightarrow> getEdges graph s1 s2)) of
        Inl e \<Rightarrow> None
      | Inr possibleEdges \<Rightarrow> build_loop build q1 q2 possibleEdges None)"

section \<open>NodeSelector\<close>

text \<open>
  The member \<^verbatim>\<open>orderedStates_\<close> of node-selector.hh (lines 35-36): the states, "ordered by
  priority".
\<close>

record 's node_selector =
  orderedStates :: "'s list"

text \<open>
  Modelled from the spec: the body of \<^verbatim>\<open>NodeSelector::getState\<close> is missing from the
  sources; node-selector.hh only declares the function (line 32).  The specification
  says that it "iterates the sequence in order and returns the first State whose
  constraint predicate is satisfied by the configuration" and "fails with a no matching
  state condition if none match"; the failure is \<open>None\<close>.  The constraint predicate of
  the states is the parameter \<open>satisfies\<close>.
\<close>

fun first_satisfied :: "('s \<Rightarrow> 'q \<Rightarrow> bool) \<Rightarrow> 's list \<Rightarrow> 'q \<Rightarrow> 's option" where
  "first_satisfied satisfies [] config = None"
| "first_satisfied satisfies (s # rest) config =
     (if satisfies s config then Some s else first_satisfied satisfies rest config)"

text \<open>
  Modelled from the spec: \<^verbatim>\<open>NodeSelector::getState\<close>, whose body is missing from the
  sources, as the iteration above over \<^verbatim>\<open>orderedStates_\<close>.
\<close>

definition NodeSelector_getState ::
  "('s \<Rightarrow> 'q \<Rightarrow> bool) \<Rightarrow> 's node_selector \<Rightarrow> 'q \<Rightarrow> 's option" where
  "NodeSelector_getState satisfies sel config =
     first_satisfied satisfies (orderedStates sel) config"

section \<open>Notions used by the statements\<close>

text \<open>
  The nodes of the two ends of a path, as \<^verbatim>\<open>impl_validate\<close> computes them (lines 116-123
  and 152-157): the configuration at each bound of the time range, then \<^verbatim>\<open>getNode\<close>.
  \<open>None\<close> stands for a failed projection, \<open>Some (Inl msg)\<close> for a throwing \<^verbatim>\<open>getNode\<close>.
\<close>

definition endpoint_nodes ::
  "('a, 'q, 't) path_ops \<Rightarrow> ('q, 'n) graph \<Rightarrow> 'a path \<Rightarrow>
   (string + 'n option) option \<times> (string + 'n option) option" where
  "endpoint_nodes ops g p =
     (map_option (getNode g) (config_at ops p (fst (timeRange ops p))),
      map_option (getNode g) (config_at ops p (snd (timeRange ops p))))"

text \<open>
  The wrapped validator reports a path fully valid: it accepts the path, in the given
  direction, or every sub-path of a composite path (the code never passes a composite
  path to the wrapped validator).
\<close>

fun fully_valid :: "('a path \<Rightarrow> bool \<Rightarrow> bool \<times> 'a path) \<Rightarrow> bool \<Rightarrow> 'a path \<Rightarrow> bool" where
  "fully_valid pv reverse (Atomic a) = fst (pv (Atomic a) reverse)"
| "fully_valid pv reverse (PathVector os ods ps) = list_all (fully_valid pv reverse) ps"

text \<open>
  The value of the path variable of \<^verbatim>\<open>impl_compute\<close> after the edges of \<open>tried\<close> have
  been attempted from the last to the first.
\<close>

definition path_after ::
  "('e \<Rightarrow> 'p option \<Rightarrow> 'q \<Rightarrow> 'q \<Rightarrow> bool \<times> 'p option) \<Rightarrow> 'q \<Rightarrow> 'q \<Rightarrow>
   'e list \<Rightarrow> 'p option \<Rightarrow> 'p option" where
  "path_after build q1 q2 tried path = foldr (\<lambda>e p. snd (build e p q1 q2)) tried path"

text \<open>
  Every attempt on the edges of \<open>es\<close> fails, each edge being tried, from the last to the
  first, with the value that the earlier attempts left in the path variable.
\<close>

definition every_build_fails ::
  "('e \<Rightarrow> 'p option \<Rightarrow> 'q \<Rightarrow> 'q \<Rightarrow> bool \<times> 'p option) \<Rightarrow> 'q \<Rightarrow> 'q \<Rightarrow> 'e list \<Rightarrow> bool" where
  "every_build_fails build q1 q2 es =
     list_all (\<lambda>i. \<not> fst (build (es ! i) (path_after build q1 q2 (drop (Suc i) es) None) q1 q2))
       [0..<length es]"

text \<open>
  The assertions of lines 39-41 on a valid part: \<open>None\<close> when they are compiled out or
  hold, and otherwise the first assertion that fails, or the \<^verbatim>\<open>std::logic_error\<close> that
  \<^verbatim>\<open>getNode\<close> throws inside an assertion.
\<close>

definition post_assertions ::
  "bool \<Rightarrow> ('a, 'q, 't) path_ops \<Rightarrow> ('a, 'q, 'n) graph_path_validation \<Rightarrow> 'a path \<Rightarrow>
   failure option" where
  "post_assertions ndebug ops V validPart =
     (if ndebug then None
      else
        (case constraintGraph V of
           None \<Rightarrow> Some (AssertionFailed Assert_constraintGraph)
         | Some g \<Rightarrow>
             (case getNode g (initial ops validPart) of
                Inl msg \<Rightarrow> Some (LogicError msg)
              | Inr None \<Rightarrow> Some (AssertionFailed Assert_initial_node)
              | Inr (Some n) \<Rightarrow>
                  (case getNode g (end_config ops validPart) of
                     Inl msg \<Rightarrow> Some (LogicError msg)
                   | Inr None \<Rightarrow> Some (AssertionFailed Assert_end_node)
                   | Inr (Some n') \<Rightarrow> None))))"

section \<open>A concrete scene\<close>

text \<open>
  The closed instances below are evaluated in one scene.  A path that is not composite
  is a piece \<open>(k, s, e)\<close> of the curve \<open>k\<close>, from time \<open>s\<close> to time \<open>e\<close>; a configuration is
  a point \<open>(k, t)\<close> of a curve.  Curve 0 is free of collisions; every other curve
  collides between the times 2 and 3, so that the wrapped validator keeps the piece up
  to 2 (forward) or from 3 (reverse).  Projection fails at four points.  Every point
  lies in node 0, but the point \<open>(2, 4)\<close>, which lies in node 1, and the point \<open>(5, 2)\<close>,
  where \<^verbatim>\<open>getNode\<close> throws.  A composite path starts at time 0 and lasts as long as its
  pieces together.
\<close>

type_synonym ex_atom = "nat \<times> int \<times> int"
type_synonym ex_config = "nat \<times> int"

definition ex_pv :: "ex_atom path \<Rightarrow> bool \<Rightarrow> bool \<times> ex_atom path" where
  "ex_pv p reverse =
     (case p of
        Atomic (k, s, e) \<Rightarrow>
          if k = 0 \<or> e \<le> 2 \<or> 3 \<le> s then (True, p)
          else if reverse then (False, Atomic (k, 3, e))
          else (False, Atomic (k, s, 2))
      | PathVector os ods ps \<Rightarrow> (True, p))"

definition ex_point :: "nat \<Rightarrow> int \<Rightarrow> ex_config option" where
  "ex_point k t =
     (if (k = 3 \<and> t = 0) \<or> (k = 4 \<and> t = 2) \<or> (k = 6 \<and> t = 4) \<or> (k = 7 \<and> t = 0)
      then None else Some (k, t))"

fun ex_point_in :: "ex_atom path list \<Rightarrow> int \<Rightarrow> ex_config option" where
  "ex_point_in [] t = None"
| "ex_point_in (Atomic (k, s, e) # rest) t =
     (if t \<le> e - s then ex_point k (s + t) else ex_point_in rest (t - (e - s)))"
| "ex_point_in (PathVector os ods ps # rest) t = None"

fun ex_duration :: "ex_atom path list \<Rightarrow> int" where
  "ex_duration [] = 0"
| "ex_duration (Atomic (k, s, e) # rest) = (e - s) + ex_duration rest"
| "ex_duration (PathVector os ods ps # rest) = ex_duration rest"

fun ex_extract_in :: "ex_atom path list \<Rightarrow> int \<Rightarrow> int \<Rightarrow> ex_atom path list" where
  "ex_extract_in [] t0 t1 = []"
| "ex_extract_in (Atomic (k, s, e) # rest) t0 t1 =
     (if e - s < t0 then ex_extract_in rest (t0 - (e - s)) (t1 - (e - s))
      else if t1 \<le> e - s then [Atomic (k, s + t0, s + t1)]
      else Atomic (k, s + t0, e) # ex_extract_in rest 0 (t1 - (e - s)))"
| "ex_extract_in (PathVector os ods ps # rest) t0 t1 = []"

definition ex_ops :: "(ex_atom, ex_config, int) path_ops" where
  "ex_ops =
     \<lparr>timeRange = (\<lambda>p. case p of Atomic (k, s, e) \<Rightarrow> (s, e)
                          | PathVector os ods ps \<Rightarrow> (0, ex_duration ps)),
      config_at = (\<lambda>p t. case p of Atomic (k, s, e) \<Rightarrow> ex_point k t
                            | PathVector os ods ps \<Rightarrow> ex_point_in ps t),
      extract_path = (\<lambda>p (t0, t1). case p of Atomic (k, s, e) \<Rightarrow> Atomic (k, t0, t1)
                            | PathVector os ods ps \<Rightarrow> PathVector os ods (ex_extract_in ps t0 t1)),
      copy = (\<lambda>p. p),
      initial = (\<lambda>p. case p of Atomic (k, s, e) \<Rightarrow> (k, s)
                        | PathVector os ods ps \<Rightarrow> (case ps of Atomic (k, s, e) # rest \<Rightarrow> (k, s) | _ \<Rightarrow> (0, 0))),
      end_config = (\<lambda>p. case p of Atomic (k, s, e) \<Rightarrow> (k, e)
                        | PathVector os ods ps \<Rightarrow>
                            (case rev ps of Atomic (k, s, e) # rest \<Rightarrow> (k, e) | _ \<Rightarrow> (0, 0)))\<rparr>"

definition ex_graph :: "(ex_config, nat) graph" where
  "ex_graph =
     \<lparr>getNode = (\<lambda>(k, t).
        if k = 5 \<and> t = 2 then Inl ''A configuration has no node''
        else if k = 2 \<and> t = 4 then Inr (Some 1)
        else Inr (Some 0))\<rparr>"

definition ex_V :: "(ex_atom, ex_config, nat) graph_path_validation" where
  "ex_V = \<lparr>pathValidation = ex_pv, constraintGraph = Some ex_graph\<rparr>"

text \<open>
  For the steering method: a configuration \<open>q\<close> lies in the state \<open>q div 10\<close>, but 99 lies
  in no state; three edges go from state 0 to state 1 and one from state 1 to state 0;
  \<^verbatim>\<open>getEdges\<close> throws on state 7.  The edge 3 never builds a path, and leaves a path in
  the variable; any other edge \<open>e\<close> builds the path \<open>e\<close>.
\<close>

definition ex_steering_graph :: "(nat, nat, nat) steering_graph" where
  "ex_steering_graph =
     \<lparr>getState = (\<lambda>q. if q = 99 then Inl ''A configuration has no node'' else Inr (q div 10)),
      getEdges = (\<lambda>s1 s2. if s1 = 0 \<and> s2 = 1 then Inr [1, 2, 3]
                           else if s1 = 1 \<and> s2 = 0 then Inr [3]
                           else if s1 = 7 \<or> s2 = 7 then Inl ''no such state''
                           else Inr [])\<rparr>"

definition ex_build :: "nat \<Rightarrow> nat option \<Rightarrow> nat \<Rightarrow> nat \<Rightarrow> bool \<times> nat option" where
  "ex_build e path q1 q2 = (if e = 3 then (False, Some 0) else (True, Some e))"

text \<open>
  For the selector, the example of the specification: the state A holds the positive
  numbers, the state B every number.
\<close>

definition ex_satisfies :: "string \<Rightarrow> int \<Rightarrow> bool" where
  "ex_satisfies s x = (if s = ''A'' then 0 < x else True)"

text \<open>
  Three variants of the scene.  In a second graph \<^verbatim>\<open>getNode\<close> gives the null pointer on
  curve 1 and throws at the two ends \<open>(9, 0)\<close> and \<open>(9, 4)\<close> of curve 9.  In a second set
  of path operations \<^verbatim>\<open>Path::initial\<close> gives a stored configuration, the point \<open>(5, 2)\<close>,
  and not the configuration at the start time.  A second \<^verbatim>\<open>build\<close> returns true and
  leaves the path variable as it is.
\<close>

definition ex_graph2 :: "(ex_config, nat) graph" where
  "ex_graph2 =
     \<lparr>getNode = (\<lambda>(k, t).
        if k = 1 then Inr None
        else if k = 9 \<and> (t = 0 \<or> t = 4) then Inl ''A configuration has no node''
        else Inr (Some 0))\<rparr>"

definition ex_V2 :: "(ex_atom, ex_config, nat) graph_path_validation" where
  "ex_V2 = \<lparr>pathValidation = ex_pv, constraintGraph = Some ex_graph2\<rparr>"


definition ex_build_null :: "nat \<Rightarrow> nat option \<Rightarrow> nat \<Rightarrow> nat \<Rightarrow> bool \<times> nat option" where
  "ex_build_null e path q1 q2 = (True, path)"

lemmas ex_defs =
  ex_ops_def ex_V_def ex_pv_def ex_graph_def ex_point_def project_def graph_getNode_def

section \<open>Auxiliary facts\<close>

declare impl_validate_forward.simps [simp del] impl_validate_reverse.simps [simp del]

text \<open>The branch of a rejected path that is not composite, with the graph set.\<close>

lemma impl_validate_rejected:
  assumes "pathValidation V (Atomic a) reverse = (False, pnc)"
    and "constraintGraph V = Some g"
    and "timeRange ops pnc = (n0, n1)"
    and "timeRange ops (Atomic a) = (o0, o1)"
  shows "impl_validate ndebug ops V (Atomic a) reverse =
    (case config_at ops pnc n0 of
       None \<Rightarrow> Inl (LogicError ''Initial configuration of the valid part cannot be projected.'')
     | Some q \<Rightarrow>
    (case getNode g q of Inl msg \<Rightarrow> Inl (LogicError msg) | Inr origNode \<Rightarrow>
    (case config_at ops pnc n1 of
       None \<Rightarrow> Inl (LogicError ''End configuration of the valid part cannot be projected.'')
     | Some q \<Rightarrow>
    (case getNode g q of Inl msg \<Rightarrow> Inr (False, extract_path ops (Atomic a) (o0, o0))
     | Inr destNode \<Rightarrow>
    (case config_at ops (Atomic a) o0 of
       None \<Rightarrow> Inl (LogicError
         ''Initial configuration of the path to be validated cannot be projected.'')
     | Some q \<Rightarrow>
    (case getNode g q of Inl msg \<Rightarrow> Inl (LogicError msg) | Inr oldOnode \<Rightarrow>
    (case config_at ops (Atomic a) o1 of
       None \<Rightarrow> Inl (LogicError
         ''End configuration of the path to be validated cannot be projected.'')
     | Some q \<Rightarrow>
    (case getNode g q of Inl msg \<Rightarrow> Inl (LogicError msg) | Inr oldDnode \<Rightarrow>
       Inr (False, if origNode = oldOnode \<and> destNode = oldDnode then pnc
                   else extract_path ops (Atomic a) (o0, o0))))))))))"
  using assms
  by (simp add: project_def graph_getNode_def Let_def split: option.splits sum.splits)

text \<open>The forward loop: where it stops, and when it runs to the end.\<close>

lemma forward_stops:
  assumes "k < length ps"
    and "\<forall>j. i \<le> j \<and> j < k \<longrightarrow> (\<exists>v. impl_validate ndebug ops V (ps ! j) False = Inr (True, v))"
    and "impl_validate ndebug ops V (ps ! k) False = Inr (False, vk)"
    and "i \<le> k"
  shows "impl_validate_forward ndebug ops V os ods ps i =
     Inr (False, PathVector os ods (map (\<lambda>v. copy ops (ps ! v)) [0..<k] @ [vk]))"
  using assms
proof (induction "k - i" arbitrary: i)
  case 0
  then have "i = k" by simp
  with 0 show ?case by (simp add: impl_validate_forward.simps [of _ _ _ _ _ ps k])
next
  case (Suc d)
  then have ik: "i < k" by simp
  with Suc.prems obtain v where v: "impl_validate ndebug ops V (ps ! i) False = Inr (True, v)"
    by auto
  have "impl_validate_forward ndebug ops V os ods ps (i + 1) =
     Inr (False, PathVector os ods (map (\<lambda>v. copy ops (ps ! v)) [0..<k] @ [vk]))"
    using Suc.hyps Suc.prems ik by (intro Suc.hyps(1)) auto
  then show ?case using v ik Suc.prems(1)
    by (simp add: impl_validate_forward.simps [of _ _ _ _ _ ps i])
qed

lemma forward_all_valid:
  assumes "\<forall>j. i \<le> j \<and> j < length ps \<longrightarrow> (\<exists>v. impl_validate ndebug ops V (ps ! j) False = Inr (True, v))"
  shows "impl_validate_forward ndebug ops V os ods ps i = Inr (True, PathVector os ods ps)"
  using assms
proof (induction "length ps - i" arbitrary: i)
  case 0
  then show ?case by (simp add: impl_validate_forward.simps [of _ _ _ _ _ ps i])
next
  case (Suc d)
  then have il: "i < length ps" by simp
  with Suc.prems obtain v where v: "impl_validate ndebug ops V (ps ! i) False = Inr (True, v)"
    by auto
  have "impl_validate_forward ndebug ops V os ods ps (i + 1) = Inr (True, PathVector os ods ps)"
    using Suc.hyps Suc.prems il by (intro Suc.hyps(1)) auto
  then show ?case using v il
    by (simp add: impl_validate_forward.simps [of _ _ _ _ _ ps i])
qed

lemma map_nth_upt_take: "k \<le> length ps \<Longrightarrow> map (\<lambda>v. f (ps ! v)) [0..<k] = map f (take k ps)"
  by (simp add: list_eq_iff_nth_eq)

text \<open>A loop that returns success returns the whole composite path.\<close>

lemma forward_True:
  "impl_validate_forward ndebug ops V os ods ps i = Inr (True, vp) \<Longrightarrow> vp = PathVector os ods ps"
proof (induction "length ps - i" arbitrary: i)
  case 0
  then show ?case by (simp add: impl_validate_forward.simps [of _ _ _ _ _ ps i])
next
  case (Suc d)
  then have il: "i < length ps" by simp
  show ?case
  proof (cases "impl_validate ndebug ops V (ps ! i) False")
    case (Inl e)
    with Suc.prems il show ?thesis
      by (simp add: impl_validate_forward.simps [of _ _ _ _ _ ps i])
  next
    case (Inr r)
    obtain b v where r: "r = (b, v)" by (cases r)
    show ?thesis
    proof (cases b)
      case True
      with Inr r Suc.prems il
      have "impl_validate_forward ndebug ops V os ods ps (i + 1) = Inr (True, vp)"
        by (simp add: impl_validate_forward.simps [of _ _ _ _ _ ps i])
      moreover have "d = length ps - (i + 1)" using Suc.hyps(2) by simp
      ultimately show ?thesis by (rule Suc.hyps(1) [rotated])
    next
      case False
      with Inr r Suc.prems il show ?thesis
        by (simp add: impl_validate_forward.simps [of _ _ _ _ _ ps i])
    qed
  qed
qed

lemma reverse_True:
  "impl_validate_reverse ndebug ops V os ods ps i = Inr (True, vp) \<Longrightarrow> vp = PathVector os ods ps"
proof (induction "nat (i + 1)" arbitrary: i)
  case 0
  then have "\<not> 0 \<le> i" by simp
  with 0 show ?case by (simp add: impl_validate_reverse.simps [of _ _ _ _ _ ps i])
next
  case (Suc d)
  show ?case
  proof (cases "0 \<le> i \<and> i < int (length ps)")
    case out: False
    with Suc.prems show ?thesis
      by (simp add: impl_validate_reverse.simps [of _ _ _ _ _ ps i])
  next
    case inside: True
    show ?thesis
    proof (cases "impl_validate ndebug ops V (ps ! nat i) True")
      case (Inl e)
      with Suc.prems inside show ?thesis
        by (simp add: impl_validate_reverse.simps [of _ _ _ _ _ ps i])
    next
      case (Inr r)
      obtain b v where r: "r = (b, v)" by (cases r)
      show ?thesis
      proof (cases b)
        case True
        with Inr r Suc.prems inside
        have "impl_validate_reverse ndebug ops V os ods ps (i - 1) = Inr (True, vp)"
          by (simp add: impl_validate_reverse.simps [of _ _ _ _ _ ps i])
        moreover have "d = nat (i - 1 + 1)" using Suc.hyps(2) by simp
        ultimately show ?thesis by (rule Suc.hyps(1) [rotated])
      next
        case False
        with Inr r Suc.prems inside show ?thesis
          by (simp add: impl_validate_reverse.simps [of _ _ _ _ _ ps i])
      qed
    qed
  qed
qed

lemma impl_validate_True:
  "impl_validate ndebug ops V p reverse = Inr (True, vp) \<Longrightarrow> vp = p"
proof (cases p)
  case (Atomic a)
  assume "impl_validate ndebug ops V p reverse = Inr (True, vp)"
  with Atomic show ?thesis
    by (auto simp: Let_def project_def graph_getNode_def
        split: prod.splits bool.splits option.splits sum.splits failure.splits if_splits)
next
  case (PathVector os ods ps)
  assume "impl_validate ndebug ops V p reverse = Inr (True, vp)"
  with PathVector show ?thesis
    by (auto split: if_splits dest: forward_True reverse_True)
qed

lemma reverse_all_valid:
  assumes "\<forall>j. j \<le> nat i \<longrightarrow> (\<exists>v. impl_validate ndebug ops V (ps ! j) True = Inr (True, v))"
    and "i < int (length ps)"
  shows "impl_validate_reverse ndebug ops V os ods ps i = Inr (True, PathVector os ods ps)"
  using assms
proof (induction "nat (i + 1)" arbitrary: i)
  case 0
  then have "\<not> 0 \<le> i" by simp
  then show ?case by (simp add: impl_validate_reverse.simps [of _ _ _ _ _ ps i])
next
  case (Suc d)
  then have i0: "0 \<le> i" by simp
  from Suc.prems obtain v where v: "impl_validate ndebug ops V (ps ! nat i) True = Inr (True, v)"
    by auto
  have "impl_validate_reverse ndebug ops V os ods ps (i - 1) = Inr (True, PathVector os ods ps)"
  proof (rule Suc.hyps(1))
    show "d = nat (i - 1 + 1)" using Suc.hyps(2) by simp
    show "\<forall>j. j \<le> nat (i - 1) \<longrightarrow> (\<exists>v. impl_validate ndebug ops V (ps ! j) True = Inr (True, v))"
      using Suc.prems(1) by auto
    show "i - 1 < int (length ps)" using Suc.prems(2) by simp
  qed
  then show ?case using v i0 Suc.prems(2)
    by (simp add: impl_validate_reverse.simps [of _ _ _ _ _ ps i])
qed

text \<open>Every way the forward loop can end.\<close>

lemma forward_cases:
  "impl_validate_forward ndebug ops V os ods ps i = r \<Longrightarrow>
   r = Inr (True, PathVector os ods ps) \<or>
   (\<exists>j. i \<le> j \<and> j < length ps \<and>
      ((\<exists>e. impl_validate ndebug ops V (ps ! j) False = Inl e \<and> r = Inl e) \<or>
       (\<exists>v. impl_validate ndebug ops V (ps ! j) False = Inr (False, v) \<and>
            r = Inr (False, PathVector os ods (map (\<lambda>v. copy ops (ps ! v)) [0..<j] @ [v])))))"
proof (induction "length ps - i" arbitrary: i)
  case 0
  then show ?case by (simp add: impl_validate_forward.simps [of _ _ _ _ _ ps i])
next
  case (Suc d)
  then have il: "i < length ps" by simp
  show ?case
  proof (cases "impl_validate ndebug ops V (ps ! i) False")
    case (Inl e)
    with Suc.prems il have "r = Inl e"
      by (simp add: impl_validate_forward.simps [of _ _ _ _ _ ps i])
    with Inl il show ?thesis by blast
  next
    case (Inr bv)
    obtain b v where bv: "bv = (b, v)" by (cases bv)
    show ?thesis
    proof (cases b)
      case True
      with Inr bv Suc.prems il
      have "impl_validate_forward ndebug ops V os ods ps (i + 1) = r"
        by (simp add: impl_validate_forward.simps [of _ _ _ _ _ ps i])
      moreover have "d = length ps - (i + 1)" using Suc.hyps(2) by simp
      ultimately have "r = Inr (True, PathVector os ods ps) \<or>
        (\<exists>j. i + 1 \<le> j \<and> j < length ps \<and>
          ((\<exists>e. impl_validate ndebug ops V (ps ! j) False = Inl e \<and> r = Inl e) \<or>
           (\<exists>v. impl_validate ndebug ops V (ps ! j) False = Inr (False, v) \<and>
              r = Inr (False, PathVector os ods (map (\<lambda>v. copy ops (ps ! v)) [0..<j] @ [v])))))"
        by (rule Suc.hyps(1) [rotated])
      then show ?thesis by (metis add_leD1)
    next
      case False
      with Inr bv Suc.prems il
      have "r = Inr (False, PathVector os ods (map (\<lambda>v. copy ops (ps ! v)) [0..<i] @ [v]))"
        by (simp add: impl_validate_forward.simps [of _ _ _ _ _ ps i])
      with Inr bv False il show ?thesis by (intro disjI2 exI [of _ i]) auto
    qed
  qed
qed

text \<open>A fully valid path is returned whole, where no assertion stops the call.\<close>

lemma fully_valid_impl_validate:
  assumes "fully_valid (pathValidation V) reverse p"
    and "\<not> reverse \<or> ndebug \<or> (\<exists>a. p = Atomic a)"
  shows "impl_validate ndebug ops V p reverse = Inr (True, p)"
  using assms
proof (induction p arbitrary: reverse)
  case (Atomic a)
  then show ?case by (auto simp: Let_def split: prod.splits bool.splits)
next
  case (PathVector os ods ps)
  show ?case
  proof (cases reverse)
    case False
    have "\<forall>j. 0 \<le> j \<and> j < length ps \<longrightarrow>
        (\<exists>v. impl_validate ndebug ops V (ps ! j) False = Inr (True, v))"
      using PathVector.IH [of _ False] PathVector.prems(1) False
      by (auto simp: list_all_length)
    from forward_all_valid [OF this] False show ?thesis by simp
  next
    case True
    with PathVector.prems(2) have nd: ndebug by simp
    show ?thesis
    proof (cases "ps = []")
      case True
      with \<open>reverse\<close> nd show ?thesis
        by (simp add: impl_validate_reverse.simps [of _ _ _ _ _ "[]"])
    next
      case False
      have "\<forall>j. j \<le> nat (int (length ps) - 1) \<longrightarrow>
          (\<exists>v. impl_validate ndebug ops V (ps ! j) True = Inr (True, v))"
      proof (intro allI impI)
        fix j assume "j \<le> nat (int (length ps) - 1)"
        with False have "j < length ps" by (cases ps) auto
        then have "ps ! j \<in> set ps" "fully_valid (pathValidation V) True (ps ! j)"
          using PathVector.prems(1) \<open>reverse\<close> by (auto simp: list_all_length)
        then show "\<exists>v. impl_validate ndebug ops V (ps ! j) True = Inr (True, v)"
          using PathVector.IH [of "ps ! j" True] nd by auto
      qed
      from reverse_all_valid [OF this] \<open>reverse\<close> nd show ?thesis by simp
    qed
  qed
qed

text \<open>With the null graph, \<^verbatim>\<open>impl_validate\<close> never returns a failure.\<close>

lemma impl_validate_null_graph:
  "constraintGraph V = None \<Longrightarrow>
   impl_validate False ops V p reverse = Inr (True, p) \<or>
   impl_validate False ops V p reverse = Inl (AssertionFailed Assert_not_reverse) \<or>
   impl_validate False ops V p reverse =
     Inl (LogicError ''Initial configuration of the valid part cannot be projected.'') \<or>
   impl_validate False ops V p reverse = Inl NullDereference"
proof (induction p arbitrary: reverse)
  case (Atomic a)
  then show ?case
    by (simp add: Let_def project_def graph_getNode_def
        split: prod.splits bool.splits option.splits)
next
  case (PathVector os ods ps)
  show ?case
  proof (cases reverse)
    case True
    then show ?thesis by simp
  next
    case False
    define r where "r = impl_validate_forward False ops V os ods ps 0"
    from forward_cases [OF r_def [symmetric]]
    consider "r = Inr (True, PathVector os ods ps)"
      | j e where "j < length ps" "impl_validate False ops V (ps ! j) False = Inl e" "r = Inl e"
      | j v where "j < length ps" "impl_validate False ops V (ps ! j) False = Inr (False, v)"
      by blast
    then show ?thesis
    proof cases
      case 1
      with False r_def show ?thesis by simp
    next
      case 2
      then have "ps ! j \<in> set ps" by simp
      from PathVector.IH [OF this PathVector.prems, of False] 2 False r_def
      show ?thesis by auto
    next
      case 3
      then have "ps ! j \<in> set ps" by simp
      from PathVector.IH [OF this PathVector.prems, of False] 3
      show ?thesis by auto
    qed
  qed
qed

text \<open>The overload without a report, against \<^verbatim>\<open>impl_validate\<close>.\<close>

lemma validate_Inr:
  "validate ndebug ops V p reverse = Inr r \<Longrightarrow> impl_validate ndebug ops V p reverse = Inr r"
  by (auto simp: validate_def split: sum.splits prod.splits if_splits option.splits)

lemma validate_ndebug: "validate True ops V p reverse = impl_validate True ops V p reverse"
  by (simp add: validate_def split: sum.splits prod.splits)

text \<open>The scene, evaluated on pieces of curves.\<close>

lemma ex_constraintGraph: "constraintGraph ex_V = Some ex_graph"
  by (simp add: ex_V_def)

lemma ex_pathValidation:
  "pathValidation ex_V (Atomic (k, s, e)) reverse =
     (if k = 0 \<or> e \<le> 2 \<or> 3 \<le> s then (True, Atomic (k, s, e))
      else if reverse then (False, Atomic (k, 3, e))
      else (False, Atomic (k, s, 2)))"
  by (simp add: ex_V_def ex_pv_def)

lemma ex_timeRange: "timeRange ex_ops (Atomic (k, s, e)) = (s, e)"
  by (simp add: ex_ops_def)

lemma ex_config_at: "config_at ex_ops (Atomic (k, s, e)) t = ex_point k t"
  by (simp add: ex_ops_def)

lemma ex_extract_path: "extract_path ex_ops (Atomic (k, s, e)) (t0, t1) = Atomic (k, t0, t1)"
  by (simp add: ex_ops_def)

lemma ex_copy: "copy ex_ops p = p"
  by (simp add: ex_ops_def)

lemma ex_getNode:
  "getNode ex_graph (k, t) =
     (if k = 5 \<and> t = 2 then Inl ''A configuration has no node''
      else if k = 2 \<and> t = 4 then Inr (Some 1)
      else Inr (Some 0))"
  by (simp add: ex_graph_def)

lemmas ex_simps =
  ex_constraintGraph ex_pathValidation ex_timeRange ex_config_at ex_extract_path ex_copy
  ex_getNode ex_point_def

lemma ex_valid_0:
  "validate_with_report ndebug ex_ops ex_V (Atomic (0, s, e)) reverse = Inr (True, Atomic (0, s, e))"
  by (simp add: validate_with_report_def ex_simps)

lemma ex_cut_1:
  "validate_with_report ndebug ex_ops ex_V (Atomic (Suc 0, 0, 4)) reverse =
     Inr (False, if reverse then Atomic (Suc 0, 3, 4) else Atomic (Suc 0, 0, 2))"
  by (simp add: validate_with_report_def project_def graph_getNode_def ex_simps)

text \<open>The loop of \<^verbatim>\<open>impl_compute\<close>, read from the back of the list.\<close>

lemma build_loop_Nil: "build_loop build q1 q2 [] path = None"
  by simp

lemma build_loop_snoc:
  "build_loop build q1 q2 (es @ [e]) path =
     (if fst (build e path q1 q2) then snd (build e path q1 q2)
      else build_loop build q1 q2 es (snd (build e path q1 q2)))"
  by (subst build_loop.simps) (simp split: prod.splits bool.splits)

declare build_loop.simps [simp del]

lemma path_after_snoc:
  "path_after build q1 q2 (es @ [e]) path = path_after build q1 q2 es (snd (build e path q1 q2))"
  by (simp add: path_after_def)

lemma build_loop_all_fail:
  "(\<forall>i<length es. \<not> fst (build (es ! i) (path_after build q1 q2 (drop (Suc i) es) path) q1 q2))
   \<Longrightarrow> build_loop build q1 q2 (pre @ es) path =
       build_loop build q1 q2 pre (path_after build q1 q2 es path)"
proof (induction es arbitrary: path rule: rev_induct)
  case Nil
  then show ?case by (simp add: path_after_def)
next
  case (snoc e es)
  from snoc.prems [rule_format, of "length es"]
  have fail: "\<not> fst (build e path q1 q2)"
    by (simp add: path_after_def)
  have "\<forall>i<length es. \<not> fst (build (es ! i)
      (path_after build q1 q2 (drop (Suc i) es) (snd (build e path q1 q2))) q1 q2)"
  proof (intro allI impI)
    fix i assume i: "i < length es"
    with snoc.prems [rule_format, of i] show "\<not> fst (build (es ! i)
      (path_after build q1 q2 (drop (Suc i) es) (snd (build e path q1 q2))) q1 q2)"
      by (simp add: path_after_def nth_append)
  qed
  from snoc.IH [OF this] fail show ?case
    using build_loop_snoc [of build q1 q2 "pre @ es" e path]
    by (simp add: path_after_def)
qed

lemma build_loop_None:
  assumes "\<forall>e p. fst (build e p q1 q2) \<longrightarrow> snd (build e p q1 q2) \<noteq> None"
    and "build_loop build q1 q2 es path = None"
  shows "\<forall>i<length es.
    \<not> fst (build (es ! i) (path_after build q1 q2 (drop (Suc i) es) path) q1 q2)"
  using assms(2)
proof (induction es arbitrary: path rule: rev_induct)
  case Nil
  then show ?case by simp
next
  case (snoc e es)
  have fail: "\<not> fst (build e path q1 q2)"
  proof
    assume "fst (build e path q1 q2)"
    with snoc.prems assms(1) show False by (simp add: build_loop_snoc)
  qed
  with snoc.prems have "build_loop build q1 q2 es (snd (build e path q1 q2)) = None"
    by (simp add: build_loop_snoc)
  from snoc.IH [OF this] fail show ?case
    by (auto simp: less_Suc_eq nth_append path_after_snoc path_after_def)
qed

lemma every_build_fails_iff:
  "every_build_fails build q1 q2 es \<longleftrightarrow>
   (\<forall>i<length es.
      \<not> fst (build (es ! i) (path_after build q1 q2 (drop (Suc i) es) None) q1 q2))"
  by (auto simp: every_build_fails_def list_all_iff)

text \<open>The overload without a report is \<^verbatim>\<open>impl_validate\<close> followed by lines 39-41.\<close>

lemma validate_post:
  "validate ndebug ops V p reverse =
     (case impl_validate ndebug ops V p reverse of
        Inl e \<Rightarrow> Inl e
      | Inr r \<Rightarrow>
          (case post_assertions ndebug ops V (snd r) of None \<Rightarrow> Inr r | Some e \<Rightarrow> Inl e))"
  by (simp add: validate_def post_assertions_def
      split: sum.splits prod.splits option.splits)

text \<open>The variants of the scene.\<close>

lemma ex_V2_simps:
  "constraintGraph ex_V2 = Some ex_graph2"
  "pathValidation ex_V2 = ex_pv"
  by (simp_all add: ex_V2_def)

lemma ex_getNode2:
  "getNode ex_graph2 (k, t) =
     (if k = 1 then Inr None
      else if k = 9 \<and> (t = 0 \<or> t = 4) then Inl ''A configuration has no node''
      else Inr (Some 0))"
  by (simp add: ex_graph2_def)

lemma ex_pv_Atomic:
  "ex_pv (Atomic (k, s, e)) reverse =
     (if k = 0 \<or> e \<le> 2 \<or> 3 \<le> s then (True, Atomic (k, s, e))
      else if reverse then (False, Atomic (k, 3, e))
      else (False, Atomic (k, s, 2)))"
  by (simp add: ex_pv_def)

lemma ex_initial: "initial ex_ops (Atomic (k, s, e)) = (k, s)"
  by (simp add: ex_ops_def)

lemma ex_end_config: "end_config ex_ops (Atomic (k, s, e)) = (k, e)"
  by (simp add: ex_ops_def)


lemmas ex_post = post_assertions_def ex_initial ex_end_config

section \<open>GraphPathValidation: the claims\<close>




text \<open>
  C2, amended.  Let validation (any of the overloads) return, with the graph set, for
  a path that is not composite or with the result success.  Then the
  configurations at the two ends of the valid part have the nodes of the configurations
  at the two ends of the path, or the valid part is the part of the path extracted on
  the interval from its start time to its start time.  The path stands for the edge that
  produced it: the code compares with the nodes of the ends of the path.
\<close>

theorem valid_part_same_nodes:
  assumes "constraintGraph V = Some g"
    and "validate ndebug ops V p reverse = Inr (success, validPart) \<or>
      validate_with_report ndebug ops V p reverse = Inr (success, validPart)"
    and "(\<exists>a. p = Atomic a) \<or> success"
  shows "endpoint_nodes ops g validPart = endpoint_nodes ops g p \<or>
    validPart = extract_path ops p (fst (timeRange ops p), fst (timeRange ops p))"
proof (cases success)
  case True
  from assms(2) have "impl_validate ndebug ops V p reverse = Inr (success, validPart)"
    by (auto simp: validate_with_report_def dest: validate_Inr)
  with True have "validPart = p"
    by (auto dest: impl_validate_True)
  then show ?thesis by simp
next
  case False
  with assms(3) obtain a where p: "p = Atomic a" by blast
  obtain b pnc where pv: "pathValidation V (Atomic a) reverse = (b, pnc)"
    by (cases "pathValidation V (Atomic a) reverse")
  from assms(2) p
  have iv: "impl_validate ndebug ops V (Atomic a) reverse = Inr (success, validPart)"
    by (auto simp: validate_with_report_def dest: validate_Inr)
  have nb: "\<not> b"
  proof
    assume b
    with pv have "impl_validate ndebug ops V (Atomic a) reverse = Inr (True, Atomic a)"
      by (simp add: Let_def)
    with iv False show False by simp
  qed
  obtain n0 n1 where n: "timeRange ops pnc = (n0, n1)" by (cases "timeRange ops pnc")
  obtain o0 o1 where o: "timeRange ops (Atomic a) = (o0, o1)" by (cases "timeRange ops (Atomic a)")
  from pv nb have "pathValidation V (Atomic a) reverse = (False, pnc)" by simp
  from iv [unfolded impl_validate_rejected [OF this assms(1) n o]]
  show ?thesis using n o unfolding p
    by (auto simp: endpoint_nodes_def split: option.splits sum.splits if_splits)
qed

text \<open>
  In the scene: the piece of curve 1, cut at time 2, keeps the nodes of its ends.
\<close>

theorem valid_part_same_nodes_witness:
  "validate False ex_ops ex_V (Atomic (1, 0, 4)) False = Inr (False, Atomic (1, 0, 2)) \<and>
   endpoint_nodes ex_ops ex_graph (Atomic (1, 0, 2)) =
     endpoint_nodes ex_ops ex_graph (Atomic (1, 0, 4))"
proof -
  have v: "validate False ex_ops ex_V (Atomic (1, 0, 4)) False = Inr (False, Atomic (1, 0, 2))"
    by (simp add: validate_def ex_defs)
  have g: "constraintGraph ex_V = Some ex_graph" by (simp add: ex_V_def)
  have e: "extract_path ex_ops (Atomic (1, 0, 4))
      (fst (timeRange ex_ops (Atomic (1, 0, 4))), fst (timeRange ex_ops (Atomic (1, 0, 4)))) =
    Atomic (1, 0, 0)"
    by (simp add: ex_ops_def)
  from valid_part_same_nodes [OF g disjI1 [OF v]] v show ?thesis
    unfolding e by simp
qed

text \<open>
  A composite path that fails is outside the statement.  The second piece below goes
  from node 0 to node 1 and is cut in node 0, so that its part of length zero is
  returned after the copy of the first piece: the valid part lasts as long as the first
  piece and ends in node 0, the path ends in node 1.
\<close>

theorem valid_part_same_nodes_counterexample:
  "validate False ex_ops ex_V (PathVector 7 6 [Atomic (0, 0, 4), Atomic (2, 0, 4)]) False =
     Inr (False, PathVector 7 6 [Atomic (0, 0, 4), Atomic (2, 0, 0)]) \<and>
   endpoint_nodes ex_ops ex_graph (PathVector 7 6 [Atomic (0, 0, 4), Atomic (2, 0, 0)]) =
     (Some (Inr (Some 0)), Some (Inr (Some 0))) \<and>
   endpoint_nodes ex_ops ex_graph (PathVector 7 6 [Atomic (0, 0, 4), Atomic (2, 0, 4)]) =
     (Some (Inr (Some 0)), Some (Inr (Some 1))) \<and>
   extract_path ex_ops (PathVector 7 6 [Atomic (0, 0, 4), Atomic (2, 0, 4)])
       (fst (timeRange ex_ops (PathVector 7 6 [Atomic (0, 0, 4), Atomic (2, 0, 4)])),
        fst (timeRange ex_ops (PathVector 7 6 [Atomic (0, 0, 4), Atomic (2, 0, 4)]))) =
     PathVector 7 6 [Atomic (0, 0, 0)]"
  by (simp add: validate_def impl_validate_forward.simps endpoint_nodes_def ex_defs)

text \<open>
  C3, amended.  For a path that is not composite and that the wrapped validator rejects,
  with the graph set, there are three kinds of outcome.  (a) A return has the result
  failure and gives the part kept by the wrapped validator or the part of length zero at
  the start time; the overloads with a report return the former exactly when all four
  configurations are projected and classified and the nodes agree.  (b) A configuration
  at an end of the kept part or of the path that is evaluated and cannot be projected
  makes every overload leave by a \<^verbatim>\<open>std::logic_error\<close>, with a message of its own for
  each of the four places.  (c) A \<^verbatim>\<open>std::logic_error\<close> of \<^verbatim>\<open>getNode\<close> at the end of the
  kept part is caught: the overloads with a report return failure with the part of
  length zero at the start time.  In (a) and (c) the overload without a report returns
  the same when the assertions of lines 39-41 are compiled out or hold for that part;
  otherwise it stops at the assertion that fails, or leaves by the \<^verbatim>\<open>std::logic_error\<close>
  that \<^verbatim>\<open>getNode\<close> throws inside an assertion.
\<close>

theorem failure_classes:
  assumes "pathValidation V (Atomic a) reverse = (False, pathNoCollision)"
    and "constraintGraph V = Some g"
    and "timeRange ops pathNoCollision = (n0, n1)"
    and "timeRange ops (Atomic a) = (o0, o1)"
  shows
   "(validate_with_report ndebug ops V (Atomic a) reverse = Inr (success, validPart) \<or>
     validate ndebug ops V (Atomic a) reverse = Inr (success, validPart) \<longrightarrow>
       \<not> success \<and>
       (validPart = pathNoCollision \<or> validPart = extract_path ops (Atomic a) (o0, o0))) \<and>
    (config_at ops pathNoCollision n0 = Some qn0 \<and> getNode g qn0 = Inr origNode \<and>
     config_at ops pathNoCollision n1 = Some qn1 \<and> getNode g qn1 = Inr destNode \<and>
     config_at ops (Atomic a) o0 = Some qo0 \<and> getNode g qo0 = Inr oldOnode \<and>
     config_at ops (Atomic a) o1 = Some qo1 \<and> getNode g qo1 = Inr oldDnode \<and>
     kept = (if origNode = oldOnode \<and> destNode = oldDnode then pathNoCollision
             else extract_path ops (Atomic a) (o0, o0)) \<longrightarrow>
       validate_with_report ndebug ops V (Atomic a) reverse = Inr (False, kept) \<and>
       validate ndebug ops V (Atomic a) reverse =
         (case post_assertions ndebug ops V kept of
            None \<Rightarrow> Inr (False, kept) | Some e \<Rightarrow> Inl e)) \<and>
    (config_at ops pathNoCollision n0 = None \<longrightarrow>
       validate_with_report ndebug ops V (Atomic a) reverse =
         Inl (LogicError ''Initial configuration of the valid part cannot be projected.'') \<and>
       validate ndebug ops V (Atomic a) reverse =
         Inl (LogicError ''Initial configuration of the valid part cannot be projected.'')) \<and>
    (config_at ops pathNoCollision n0 = Some qn0 \<and> getNode g qn0 = Inr origNode \<and>
     config_at ops pathNoCollision n1 = None \<longrightarrow>
       validate_with_report ndebug ops V (Atomic a) reverse =
         Inl (LogicError ''End configuration of the valid part cannot be projected.'') \<and>
       validate ndebug ops V (Atomic a) reverse =
         Inl (LogicError ''End configuration of the valid part cannot be projected.'')) \<and>
    (config_at ops pathNoCollision n0 = Some qn0 \<and> getNode g qn0 = Inr origNode \<and>
     config_at ops pathNoCollision n1 = Some qn1 \<and> getNode g qn1 = Inr destNode \<and>
     config_at ops (Atomic a) o0 = None \<longrightarrow>
       validate_with_report ndebug ops V (Atomic a) reverse =
         Inl (LogicError
           ''Initial configuration of the path to be validated cannot be projected.'') \<and>
       validate ndebug ops V (Atomic a) reverse =
         Inl (LogicError
           ''Initial configuration of the path to be validated cannot be projected.'')) \<and>
    (config_at ops pathNoCollision n0 = Some qn0 \<and> getNode g qn0 = Inr origNode \<and>
     config_at ops pathNoCollision n1 = Some qn1 \<and> getNode g qn1 = Inr destNode \<and>
     config_at ops (Atomic a) o0 = Some qo0 \<and> getNode g qo0 = Inr oldOnode \<and>
     config_at ops (Atomic a) o1 = None \<longrightarrow>
       validate_with_report ndebug ops V (Atomic a) reverse =
         Inl (LogicError
           ''End configuration of the path to be validated cannot be projected.'') \<and>
       validate ndebug ops V (Atomic a) reverse =
         Inl (LogicError
           ''End configuration of the path to be validated cannot be projected.'')) \<and>
    (config_at ops pathNoCollision n0 = Some qn0 \<and> getNode g qn0 = Inr origNode \<and>
     config_at ops pathNoCollision n1 = Some qn1 \<and> getNode g qn1 = Inl msg \<longrightarrow>
       validate_with_report ndebug ops V (Atomic a) reverse =
         Inr (False, extract_path ops (Atomic a) (o0, o0)) \<and>
       validate ndebug ops V (Atomic a) reverse =
         (case post_assertions ndebug ops V (extract_path ops (Atomic a) (o0, o0)) of
            None \<Rightarrow> Inr (False, extract_path ops (Atomic a) (o0, o0))
          | Some e \<Rightarrow> Inl e))"
  unfolding validate_with_report_def validate_post impl_validate_rejected [OF assms]
  by (auto split: option.splits sum.splits if_splits)

text \<open>
  In the scene, with the assertions compiled in, one path for each of the six outcomes,
  on both kinds of overload; the third projection fails on a path validated in reverse,
  whose kept part starts at time 3.
\<close>

theorem failure_classes_witness:
  "validate_with_report False ex_ops ex_V (Atomic (1, 0, 4)) False =
     Inr (False, Atomic (1, 0, 2)) \<and>
   validate False ex_ops ex_V (Atomic (1, 0, 4)) False =
     Inr (False, Atomic (1, 0, 2)) \<and>
   validate_with_report False ex_ops ex_V (Atomic (3, 0, 4)) False =
     Inl (LogicError ''Initial configuration of the valid part cannot be projected.'') \<and>
   validate False ex_ops ex_V (Atomic (3, 0, 4)) False =
     Inl (LogicError ''Initial configuration of the valid part cannot be projected.'') \<and>
   validate_with_report False ex_ops ex_V (Atomic (4, 0, 4)) False =
     Inl (LogicError ''End configuration of the valid part cannot be projected.'') \<and>
   validate False ex_ops ex_V (Atomic (4, 0, 4)) False =
     Inl (LogicError ''End configuration of the valid part cannot be projected.'') \<and>
   validate_with_report False ex_ops ex_V (Atomic (7, 0, 4)) True =
     Inl (LogicError
       ''Initial configuration of the path to be validated cannot be projected.'') \<and>
   validate False ex_ops ex_V (Atomic (7, 0, 4)) True =
     Inl (LogicError
       ''Initial configuration of the path to be validated cannot be projected.'') \<and>
   validate_with_report False ex_ops ex_V (Atomic (6, 0, 4)) False =
     Inl (LogicError
       ''End configuration of the path to be validated cannot be projected.'') \<and>
   validate False ex_ops ex_V (Atomic (6, 0, 4)) False =
     Inl (LogicError
       ''End configuration of the path to be validated cannot be projected.'') \<and>
   validate_with_report False ex_ops ex_V (Atomic (5, 0, 4)) False =
     Inr (False, Atomic (5, 0, 0)) \<and>
   validate False ex_ops ex_V (Atomic (5, 0, 4)) False =
     Inr (False, Atomic (5, 0, 0))"
proof -
  have "validate_with_report False ex_ops ex_V (Atomic (1, 0, 4)) False =
      Inr (False, Atomic (1, 0, 2)) \<and>
    validate False ex_ops ex_V (Atomic (1, 0, 4)) False =
      Inr (False, Atomic (1, 0, 2))"
    using failure_classes [where ndebug = False and a = "(1, 0, 4)" and reverse = False
          and pathNoCollision = "Atomic (1, 0, 2)"
          and ?qn0.0 = "(1, 0)" and ?qn1.0 = "(1, 2)" and ?qo0.0 = "(1, 0)" and ?qo1.0 = "(1, 4)"
          and origNode = "Some 0" and destNode = "Some 0"
          and oldOnode = "Some 0" and oldDnode = "Some 0" and kept = "Atomic (1, 0, 2)",
        OF _ ex_constraintGraph ex_timeRange ex_timeRange,
        THEN conjunct2, THEN conjunct1]
    by (simp add: ex_simps ex_post)
  moreover
  have "validate_with_report False ex_ops ex_V (Atomic (3, 0, 4)) False =
      Inl (LogicError ''Initial configuration of the valid part cannot be projected.'') \<and>
    validate False ex_ops ex_V (Atomic (3, 0, 4)) False =
      Inl (LogicError ''Initial configuration of the valid part cannot be projected.'')"
    using failure_classes [where ndebug = False and a = "(3, 0, 4)" and reverse = False
          and pathNoCollision = "Atomic (3, 0, 2)",
        OF _ ex_constraintGraph ex_timeRange ex_timeRange,
        THEN conjunct2, THEN conjunct2, THEN conjunct1]
    by (simp add: ex_simps ex_post)
  moreover
  have "validate_with_report False ex_ops ex_V (Atomic (4, 0, 4)) False =
      Inl (LogicError ''End configuration of the valid part cannot be projected.'') \<and>
    validate False ex_ops ex_V (Atomic (4, 0, 4)) False =
      Inl (LogicError ''End configuration of the valid part cannot be projected.'')"
    using failure_classes [where ndebug = False and a = "(4, 0, 4)" and reverse = False
          and pathNoCollision = "Atomic (4, 0, 2)"
          and ?qn0.0 = "(4, 0)" and origNode = "Some 0",
        OF _ ex_constraintGraph ex_timeRange ex_timeRange,
        THEN conjunct2, THEN conjunct2, THEN conjunct2, THEN conjunct1]
    by (simp add: ex_simps ex_post)
  moreover
  have "validate_with_report False ex_ops ex_V (Atomic (7, 0, 4)) True =
      Inl (LogicError
        ''Initial configuration of the path to be validated cannot be projected.'') \<and>
    validate False ex_ops ex_V (Atomic (7, 0, 4)) True =
      Inl (LogicError
        ''Initial configuration of the path to be validated cannot be projected.'')"
    using failure_classes [where ndebug = False and a = "(7, 0, 4)" and reverse = True
          and pathNoCollision = "Atomic (7, 3, 4)"
          and ?qn0.0 = "(7, 3)" and origNode = "Some 0"
          and ?qn1.0 = "(7, 4)" and destNode = "Some 0",
        OF _ ex_constraintGraph ex_timeRange ex_timeRange,
        THEN conjunct2, THEN conjunct2, THEN conjunct2, THEN conjunct2, THEN conjunct1]
    by (simp add: ex_simps ex_post)
  moreover
  have "validate_with_report False ex_ops ex_V (Atomic (6, 0, 4)) False =
      Inl (LogicError
        ''End configuration of the path to be validated cannot be projected.'') \<and>
    validate False ex_ops ex_V (Atomic (6, 0, 4)) False =
      Inl (LogicError
        ''End configuration of the path to be validated cannot be projected.'')"
    using failure_classes [where ndebug = False and a = "(6, 0, 4)" and reverse = False
          and pathNoCollision = "Atomic (6, 0, 2)"
          and ?qn0.0 = "(6, 0)" and origNode = "Some 0"
          and ?qn1.0 = "(6, 2)" and destNode = "Some 0"
          and ?qo0.0 = "(6, 0)" and oldOnode = "Some 0",
        OF _ ex_constraintGraph ex_timeRange ex_timeRange,
        THEN conjunct2, THEN conjunct2, THEN conjunct2, THEN conjunct2, THEN conjunct2, THEN conjunct1]
    by (simp add: ex_simps ex_post)
  moreover
  have "validate_with_report False ex_ops ex_V (Atomic (5, 0, 4)) False =
      Inr (False, Atomic (5, 0, 0)) \<and>
    validate False ex_ops ex_V (Atomic (5, 0, 4)) False =
      Inr (False, Atomic (5, 0, 0))"
    using failure_classes [where ndebug = False and a = "(5, 0, 4)" and reverse = False
          and pathNoCollision = "Atomic (5, 0, 2)"
          and ?qn0.0 = "(5, 0)" and origNode = "Some 0"
          and ?qn1.0 = "(5, 2)" and msg = "''A configuration has no node''",
        OF _ ex_constraintGraph ex_timeRange ex_timeRange,
        THEN conjunct2, THEN conjunct2, THEN conjunct2, THEN conjunct2, THEN conjunct2, THEN conjunct2]
    by (simp add: ex_simps ex_post)
  ultimately show ?thesis by simp
qed

text \<open>
  In (c) the overload without a report can pass the error on.  With the second graph the
  piece of curve 9, validated in reverse, keeps the part from time 3, whose start lies in
  node 0 and at whose end \<^verbatim>\<open>getNode\<close> throws: the overloads with a report return the
  part of length zero at time 0, but \<^verbatim>\<open>getNode\<close> throws again at that point, inside the
  assertion of line 40.
\<close>

theorem failure_classes_counterexample:
  "pathValidation ex_V2 (Atomic (9, 0, 4)) True = (False, Atomic (9, 3, 4)) \<and>
   map_option (getNode ex_graph2) (config_at ex_ops (Atomic (9, 3, 4)) 3) =
     Some (Inr (Some 0)) \<and>
   map_option (getNode ex_graph2) (config_at ex_ops (Atomic (9, 3, 4)) 4) =
     Some (Inl ''A configuration has no node'') \<and>
   validate_with_report False ex_ops ex_V2 (Atomic (9, 0, 4)) True =
     Inr (False, Atomic (9, 0, 0)) \<and>
   validate False ex_ops ex_V2 (Atomic (9, 0, 4)) True =
     Inl (LogicError ''A configuration has no node'')"
  by (simp add: validate_def validate_with_report_def project_def graph_getNode_def
      ex_simps ex_V2_simps ex_getNode2 ex_pv_Atomic ex_initial ex_end_config)

text \<open>
  C4, amended.  A composite path is validated forward.  If the element of rank \<open>k\<close> is the
  first that is not fully valid, and its validation returns the part \<open>validSubPart\<close>, let
  \<open>validPart\<close> be the composite path made of the copies of the elements of ranks 0 to
  \<open>k - 1\<close>, in order, and then \<open>validSubPart\<close>: the overloads with a report return failure
  with \<open>validPart\<close>.  If every element is fully valid, they return success with the path
  itself.  The overload without a report returns the same when the assertions of lines
  39-41 are compiled out or hold for the valid part; otherwise it stops at the
  assertion that fails, or leaves by the \<^verbatim>\<open>std::logic_error\<close> that \<^verbatim>\<open>getNode\<close> throws
  inside an assertion.
\<close>

theorem forward_composite:
  "(k < length ps \<and>
    (\<forall>j<k. \<exists>v. validate_with_report ndebug ops V (ps ! j) False = Inr (True, v)) \<and>
    validate_with_report ndebug ops V (ps ! k) False = Inr (False, validSubPart) \<and>
    validPart = PathVector os ods (map (copy ops) (take k ps) @ [validSubPart]) \<longrightarrow>
      validate_with_report ndebug ops V (PathVector os ods ps) False =
        Inr (False, validPart) \<and>
      validate ndebug ops V (PathVector os ods ps) False =
        (case post_assertions ndebug ops V validPart of
           None \<Rightarrow> Inr (False, validPart) | Some e \<Rightarrow> Inl e)) \<and>
   ((\<forall>j<length ps. \<exists>v. validate_with_report ndebug ops V (ps ! j) False = Inr (True, v)) \<longrightarrow>
      validate_with_report ndebug ops V (PathVector os ods ps) False =
        Inr (True, PathVector os ods ps) \<and>
      validate ndebug ops V (PathVector os ods ps) False =
        (case post_assertions ndebug ops V (PathVector os ods ps) of
           None \<Rightarrow> Inr (True, PathVector os ods ps) | Some e \<Rightarrow> Inl e))"
proof (intro conjI impI)
  assume h: "k < length ps \<and>
    (\<forall>j<k. \<exists>v. validate_with_report ndebug ops V (ps ! j) False = Inr (True, v)) \<and>
    validate_with_report ndebug ops V (ps ! k) False = Inr (False, validSubPart) \<and>
    validPart = PathVector os ods (map (copy ops) (take k ps) @ [validSubPart])"
  then have "impl_validate_forward ndebug ops V os ods ps 0 =
      Inr (False, PathVector os ods (map (\<lambda>v. copy ops (ps ! v)) [0..<k] @ [validSubPart]))"
    by (intro forward_stops) (auto simp: validate_with_report_def)
  moreover from h have "map (\<lambda>v. copy ops (ps ! v)) [0..<k] = map (copy ops) (take k ps)"
    by (intro map_nth_upt_take) simp
  ultimately have iv: "impl_validate ndebug ops V (PathVector os ods ps) False =
      Inr (False, validPart)"
    using h by simp
  then show "validate_with_report ndebug ops V (PathVector os ods ps) False =
        Inr (False, validPart)"
    by (simp add: validate_with_report_def del: impl_validate.simps)
  from iv show "validate ndebug ops V (PathVector os ods ps) False =
        (case post_assertions ndebug ops V validPart of
           None \<Rightarrow> Inr (False, validPart) | Some e \<Rightarrow> Inl e)"
    by (simp add: validate_post del: impl_validate.simps)
next
  assume "\<forall>j<length ps. \<exists>v. validate_with_report ndebug ops V (ps ! j) False = Inr (True, v)"
  then have "impl_validate_forward ndebug ops V os ods ps 0 = Inr (True, PathVector os ods ps)"
    by (intro forward_all_valid) (auto simp: validate_with_report_def)
  then have iv: "impl_validate ndebug ops V (PathVector os ods ps) False =
      Inr (True, PathVector os ods ps)"
    by simp
  then show "validate_with_report ndebug ops V (PathVector os ods ps) False =
        Inr (True, PathVector os ods ps)"
    by (simp add: validate_with_report_def del: impl_validate.simps)
  from iv show "validate ndebug ops V (PathVector os ods ps) False =
        (case post_assertions ndebug ops V (PathVector os ods ps) of
           None \<Rightarrow> Inr (True, PathVector os ods ps) | Some e \<Rightarrow> Inl e)"
    by (simp add: validate_post del: impl_validate.simps)
qed

text \<open>
  In the scene, with the assertions compiled in: four pieces of which the third is cut
  at time 2, and two free pieces.
\<close>

theorem forward_composite_witness:
  "validate_with_report False ex_ops ex_V
     (PathVector 7 6 [Atomic (0, 0, 4), Atomic (0, 4, 6), Atomic (1, 0, 4), Atomic (0, 0, 1)]) False =
     Inr (False, PathVector 7 6 [Atomic (0, 0, 4), Atomic (0, 4, 6), Atomic (1, 0, 2)]) \<and>
   validate False ex_ops ex_V
     (PathVector 7 6 [Atomic (0, 0, 4), Atomic (0, 4, 6), Atomic (1, 0, 4), Atomic (0, 0, 1)]) False =
     Inr (False, PathVector 7 6 [Atomic (0, 0, 4), Atomic (0, 4, 6), Atomic (1, 0, 2)]) \<and>
   validate_with_report False ex_ops ex_V
     (PathVector 7 6 [Atomic (0, 0, 4), Atomic (0, 4, 6)]) False =
     Inr (True, PathVector 7 6 [Atomic (0, 0, 4), Atomic (0, 4, 6)]) \<and>
   validate False ex_ops ex_V
     (PathVector 7 6 [Atomic (0, 0, 4), Atomic (0, 4, 6)]) False =
     Inr (True, PathVector 7 6 [Atomic (0, 0, 4), Atomic (0, 4, 6)])"
proof -
  have p1: "post_assertions False ex_ops ex_V
      (PathVector 7 6 [Atomic (0, 0, 4), Atomic (0, 4, 6), Atomic (1, 0, 2)]) = None"
    by (simp add: post_assertions_def ex_constraintGraph ex_getNode ex_ops_def)
  have p2: "post_assertions False ex_ops ex_V
      (PathVector 7 6 [Atomic (0, 0, 4), Atomic (0, 4, 6)]) = None"
    by (simp add: post_assertions_def ex_constraintGraph ex_getNode ex_ops_def)
  have "validate_with_report False ex_ops ex_V
     (PathVector 7 6 [Atomic (0, 0, 4), Atomic (0, 4, 6), Atomic (1, 0, 4), Atomic (0, 0, 1)]) False =
     Inr (False, PathVector 7 6 [Atomic (0, 0, 4), Atomic (0, 4, 6), Atomic (1, 0, 2)]) \<and>
   validate False ex_ops ex_V
     (PathVector 7 6 [Atomic (0, 0, 4), Atomic (0, 4, 6), Atomic (1, 0, 4), Atomic (0, 0, 1)]) False =
     (case post_assertions False ex_ops ex_V
        (PathVector 7 6 [Atomic (0, 0, 4), Atomic (0, 4, 6), Atomic (1, 0, 2)]) of
        None \<Rightarrow> Inr (False, PathVector 7 6 [Atomic (0, 0, 4), Atomic (0, 4, 6), Atomic (1, 0, 2)])
      | Some e \<Rightarrow> Inl e)"
    by (rule forward_composite [THEN conjunct1, rule_format,
          where k = 2 and validSubPart = "Atomic (1, 0, 2)"])
      (auto simp: ex_valid_0 ex_cut_1 ex_copy less_Suc_eq numeral_2_eq_2)
  moreover
  have "validate_with_report False ex_ops ex_V
     (PathVector 7 6 [Atomic (0, 0, 4), Atomic (0, 4, 6)]) False =
     Inr (True, PathVector 7 6 [Atomic (0, 0, 4), Atomic (0, 4, 6)]) \<and>
   validate False ex_ops ex_V
     (PathVector 7 6 [Atomic (0, 0, 4), Atomic (0, 4, 6)]) False =
     (case post_assertions False ex_ops ex_V
        (PathVector 7 6 [Atomic (0, 0, 4), Atomic (0, 4, 6)]) of
        None \<Rightarrow> Inr (True, PathVector 7 6 [Atomic (0, 0, 4), Atomic (0, 4, 6)])
      | Some e \<Rightarrow> Inl e)"
    by (rule forward_composite [THEN conjunct2, rule_format])
      (auto simp: ex_valid_0 less_Suc_eq numeral_2_eq_2)
  ultimately show ?thesis unfolding p1 p2 by simp
qed

text \<open>
  The overload without a report need not return.  The piece of curve 5 that stays at time
  2 is fully valid, and the piece of curve 1 is cut at time 2: the overloads with a
  report return the copy of the first and the cut piece, but the valid part starts at
  the point \<open>(5, 2)\<close>, where \<^verbatim>\<open>getNode\<close> throws inside the assertion of line 40.  The same
  happens when the first piece is the only element, which is fully valid.
\<close>

theorem forward_composite_counterexample:
  "validate_with_report False ex_ops ex_V (Atomic (5, 2, 2)) False =
     Inr (True, Atomic (5, 2, 2)) \<and>
   validate_with_report False ex_ops ex_V (Atomic (1, 0, 4)) False =
     Inr (False, Atomic (1, 0, 2)) \<and>
   validate_with_report False ex_ops ex_V
     (PathVector 7 6 [Atomic (5, 2, 2), Atomic (1, 0, 4)]) False =
     Inr (False, PathVector 7 6 [Atomic (5, 2, 2), Atomic (1, 0, 2)]) \<and>
   validate False ex_ops ex_V (PathVector 7 6 [Atomic (5, 2, 2), Atomic (1, 0, 4)]) False =
     Inl (LogicError ''A configuration has no node'') \<and>
   validate False ex_ops ex_V (PathVector 7 6 [Atomic (5, 2, 2)]) False =
     Inl (LogicError ''A configuration has no node'')"
  by (simp add: validate_def validate_with_report_def impl_validate_forward.simps ex_defs)

text \<open>
  C5.  The code at the input that shows the defect, with the assertions compiled out: of
  three elements validated in reverse, the last two are fully valid and the first is
  cut.  The valid part holds two copies of the first element (line 75 copies
  \<^verbatim>\<open>pathAtRank (i)\<close> where the forward loop, line 89, copies \<^verbatim>\<open>pathAtRank (v)\<close>), not the
  copies of the third and of the second element.  With the assertions compiled in, the
  call stops at line 68.
\<close>

theorem reverse_composite_copies_wrong_element:
  "validate_with_report True ex_ops ex_V
     (PathVector 7 6 [Atomic (1, 0, 4), Atomic (0, 0, 4), Atomic (0, 4, 6)]) True =
     Inr (False, PathVector 7 6 [copy ex_ops (Atomic (1, 0, 4)), copy ex_ops (Atomic (1, 0, 4)),
       Atomic (1, 3, 4)]) \<and>
   validate_with_report True ex_ops ex_V (Atomic (1, 0, 4)) True = Inr (False, Atomic (1, 3, 4)) \<and>
   validate_with_report True ex_ops ex_V (Atomic (0, 0, 4)) True = Inr (True, Atomic (0, 0, 4)) \<and>
   validate_with_report True ex_ops ex_V (Atomic (0, 4, 6)) True = Inr (True, Atomic (0, 4, 6)) \<and>
   validate_with_report True ex_ops ex_V
     (PathVector 7 6 [Atomic (1, 0, 4), Atomic (0, 0, 4), Atomic (0, 4, 6)]) True \<noteq>
     Inr (False, PathVector 7 6 [copy ex_ops (Atomic (0, 4, 6)), copy ex_ops (Atomic (0, 0, 4)),
       Atomic (1, 3, 4)]) \<and>
   validate_with_report False ex_ops ex_V
     (PathVector 7 6 [Atomic (1, 0, 4), Atomic (0, 0, 4), Atomic (0, 4, 6)]) True =
     Inl (AssertionFailed Assert_not_reverse)"
  by (simp add: validate_with_report_def impl_validate_reverse.simps project_def
      graph_getNode_def ex_simps)

text \<open>
  C6, amended.  For a path that the wrapped validator reports fully valid, validated
  forward, or in reverse when it is not composite or the assertions are compiled out,
  the overloads with a report return success, and the valid part is the path itself.
  The overload without a report returns the same when the assertions of lines 39-41 are
  compiled out or hold for the path; otherwise it stops at the assertion that fails, or
  leaves by the \<^verbatim>\<open>std::logic_error\<close> that \<^verbatim>\<open>getNode\<close> throws inside an assertion.
\<close>

theorem fully_valid_returns_path:
  assumes "fully_valid (pathValidation V) reverse p"
    and "\<not> reverse \<or> ndebug \<or> (\<exists>a. p = Atomic a)"
  shows "validate_with_report ndebug ops V p reverse = Inr (True, p) \<and>
    validate True ops V p reverse = Inr (True, p) \<and>
    validate ndebug ops V p reverse =
      (case post_assertions ndebug ops V p of None \<Rightarrow> Inr (True, p) | Some e \<Rightarrow> Inl e)"
  unfolding validate_with_report_def validate_ndebug
  using assms by (simp add: validate_post fully_valid_impl_validate del: impl_validate.simps)

text \<open>
  In the scene: a nested composite path forward, a composite path in reverse without
  assertions, a piece in reverse; and with the assertions compiled in, on the overload
  without a report, a piece in reverse and a composite path forward.
\<close>

theorem fully_valid_returns_path_witness:
  "validate_with_report False ex_ops ex_V
     (PathVector 7 6 [Atomic (0, 0, 4), PathVector 7 6 [Atomic (0, 4, 6)]]) False =
     Inr (True, PathVector 7 6 [Atomic (0, 0, 4), PathVector 7 6 [Atomic (0, 4, 6)]]) \<and>
   validate_with_report True ex_ops ex_V
     (PathVector 7 6 [Atomic (0, 0, 4), Atomic (0, 4, 6)]) True =
     Inr (True, PathVector 7 6 [Atomic (0, 0, 4), Atomic (0, 4, 6)]) \<and>
   validate_with_report False ex_ops ex_V (Atomic (0, 0, 4)) True =
     Inr (True, Atomic (0, 0, 4)) \<and>
   validate False ex_ops ex_V (Atomic (0, 0, 4)) True = Inr (True, Atomic (0, 0, 4)) \<and>
   validate False ex_ops ex_V (PathVector 7 6 [Atomic (0, 0, 4), Atomic (0, 4, 6)]) False =
     Inr (True, PathVector 7 6 [Atomic (0, 0, 4), Atomic (0, 4, 6)])"
proof -
  have p1: "post_assertions False ex_ops ex_V (Atomic (0, 0, 4)) = None"
    by (simp add: ex_simps ex_post)
  have p2: "post_assertions False ex_ops ex_V
      (PathVector 7 6 [Atomic (0, 0, 4), Atomic (0, 4, 6)]) = None"
    by (simp add: post_assertions_def ex_constraintGraph ex_getNode ex_ops_def)
  from
    fully_valid_returns_path [of ex_V False
      "PathVector 7 6 [Atomic (0, 0, 4), PathVector 7 6 [Atomic (0, 4, 6)]]" False ex_ops]
    fully_valid_returns_path [of ex_V True
      "PathVector 7 6 [Atomic (0, 0, 4), Atomic (0, 4, 6)]" True ex_ops]
    fully_valid_returns_path [of ex_V True "Atomic (0, 0, 4)" False ex_ops]
    fully_valid_returns_path [of ex_V False
      "PathVector 7 6 [Atomic (0, 0, 4), Atomic (0, 4, 6)]" False ex_ops]
  show ?thesis unfolding p1 p2
    by (simp add: ex_pathValidation)
qed

text \<open>
  A composite path validated in reverse with the assertions compiled in stops at the
  assertion of line 68, also when every element is fully valid.  And forward, on the
  overload without a report, the fully valid piece of curve 5 that stays at time 2 is not
  returned: \<^verbatim>\<open>getNode\<close> throws at its start, inside the assertion of line 40.
\<close>

theorem fully_valid_returns_path_counterexample:
  "fully_valid (pathValidation ex_V) True (PathVector 7 6 [Atomic (0, 0, 4)]) \<and>
   validate_with_report False ex_ops ex_V (PathVector 7 6 [Atomic (0, 0, 4)]) True =
     Inl (AssertionFailed Assert_not_reverse) \<and>
   validate False ex_ops ex_V (PathVector 7 6 [Atomic (0, 0, 4)]) True =
     Inl (AssertionFailed Assert_not_reverse) \<and>
   fully_valid (pathValidation ex_V) False (Atomic (5, 2, 2)) \<and>
   validate False ex_ops ex_V (Atomic (5, 2, 2)) False =
     Inl (LogicError ''A configuration has no node'')"
  by (simp add: validate_with_report_def validate_def ex_simps ex_initial ex_end_config)

section \<open>GraphSteeringMethod: the claims\<close>

text \<open>
  C7.  \<^verbatim>\<open>impl_compute\<close> uses the list of edges as a stack.  With no edge left the loop
  gives the null path; otherwise it tries the last edge, returns what that edge built
  when it succeeds, and else goes on with the list without its last edge.  Hence, when
  the graph gives the edges \<open>pre @ e # tried\<close>, every attempt on \<open>tried\<close> fails and \<open>e\<close>
  succeeds, the result is the path built by \<open>e\<close>, whatever \<open>pre\<close> holds.
\<close>

theorem edges_tried_from_the_back:
  "build_loop build q1 q2 [] path = None \<and>
   build_loop build q1 q2 (es @ [e]) path =
     (if fst (build e path q1 q2) then snd (build e path q1 q2)
      else build_loop build q1 q2 es (snd (build e path q1 q2))) \<and>
   (getState graph q1 = Inr s1 \<and> getState graph q2 = Inr s2 \<and>
    getEdges graph s1 s2 = Inr (pre @ e # tried) \<and>
    every_build_fails build q1 q2 tried \<and>
    fst (build e (path_after build q1 q2 tried None) q1 q2) \<longrightarrow>
      impl_compute graph build q1 q2 =
        snd (build e (path_after build q1 q2 tried None) q1 q2))"
proof (intro conjI impI)
  show "build_loop build q1 q2 [] path = None" by (rule build_loop_Nil)
  show "build_loop build q1 q2 (es @ [e]) path =
     (if fst (build e path q1 q2) then snd (build e path q1 q2)
      else build_loop build q1 q2 es (snd (build e path q1 q2)))"
    by (rule build_loop_snoc)
next
  assume h: "getState graph q1 = Inr s1 \<and> getState graph q2 = Inr s2 \<and>
    getEdges graph s1 s2 = Inr (pre @ e # tried) \<and>
    every_build_fails build q1 q2 tried \<and>
    fst (build e (path_after build q1 q2 tried None) q1 q2)"
  then have "build_loop build q1 q2 ((pre @ [e]) @ tried) None =
      build_loop build q1 q2 (pre @ [e]) (path_after build q1 q2 tried None)"
    by (intro build_loop_all_fail) (simp add: every_build_fails_iff)
  with h show "impl_compute graph build q1 q2 =
        snd (build e (path_after build q1 q2 tried None) q1 q2)"
    by (simp add: impl_compute_def build_loop_snoc)
qed

text \<open>
  In the scene: of the edges 1, 2, 3 the edge 3 is tried first and fails, then the edge
  2 builds the path that is returned; the edge 1 is not tried.
\<close>

theorem edges_tried_from_the_back_witness:
  "impl_compute ex_steering_graph ex_build 5 15 = Some 2 \<and>
   build_loop ex_build 5 15 ([1, 2] @ [3]) None = build_loop ex_build 5 15 [1, 2] (Some 0)"
proof -
  have "impl_compute ex_steering_graph ex_build 5 15 =
      snd (ex_build 2 (path_after ex_build 5 15 [3] None) 5 15)"
    by (rule edges_tried_from_the_back [THEN conjunct2, THEN conjunct2, rule_format,
          where ?s1.0 = 0 and ?s2.0 = 1 and pre = "[1]"])
      (simp add: ex_steering_graph_def ex_build_def every_build_fails_def path_after_def)
  moreover
  have "build_loop ex_build 5 15 ([1, 2] @ [3]) None =
     (if fst (ex_build 3 None 5 15) then snd (ex_build 3 None 5 15)
      else build_loop ex_build 5 15 [1, 2] (snd (ex_build 3 None 5 15)))"
    by (rule edges_tried_from_the_back [THEN conjunct2, THEN conjunct1])
  ultimately show ?thesis by (simp add: ex_build_def)
qed

text \<open>
  C8, amended.  \<^verbatim>\<open>impl_compute\<close> returns the null path when \<^verbatim>\<open>getState\<close> or \<^verbatim>\<open>getEdges\<close> throws a
  \<^verbatim>\<open>std::logic_error\<close>, when the list of edges is empty, and when every attempt fails;
  and in no other case, provided that an edge that succeeds sets a path that is not
  null.  The result of \<^verbatim>\<open>impl_compute\<close> is a path pointer in each case: the error is
  caught, not passed on.
\<close>

theorem no_path_cases:
  "((\<exists>msg. getState graph q1 = Inl msg) \<or> (\<exists>msg. getState graph q2 = Inl msg) \<longrightarrow>
      impl_compute graph build q1 q2 = None) \<and>
   (getState graph q1 = Inr s1 \<and> getState graph q2 = Inr s2 \<and>
    getEdges graph s1 s2 = Inl msg \<longrightarrow>
      impl_compute graph build q1 q2 = None) \<and>
   (getState graph q1 = Inr s1 \<and> getState graph q2 = Inr s2 \<and>
    getEdges graph s1 s2 = Inr [] \<longrightarrow>
      impl_compute graph build q1 q2 = None) \<and>
   (getState graph q1 = Inr s1 \<and> getState graph q2 = Inr s2 \<and>
    getEdges graph s1 s2 = Inr es \<and> every_build_fails build q1 q2 es \<longrightarrow>
      impl_compute graph build q1 q2 = None) \<and>
   ((\<forall>e p. fst (build e p q1 q2) \<longrightarrow> snd (build e p q1 q2) \<noteq> None) \<and>
    impl_compute graph build q1 q2 = None \<longrightarrow>
      (\<exists>msg. getState graph q1 = Inl msg) \<or> (\<exists>msg. getState graph q2 = Inl msg) \<or>
      (\<exists>s1 s2. getState graph q1 = Inr s1 \<and> getState graph q2 = Inr s2 \<and>
         ((\<exists>msg. getEdges graph s1 s2 = Inl msg) \<or>
          (\<exists>es. getEdges graph s1 s2 = Inr es \<and>
             (es = [] \<or> every_build_fails build q1 q2 es)))))"
proof (intro conjI impI)
  assume "(\<exists>msg. getState graph q1 = Inl msg) \<or> (\<exists>msg. getState graph q2 = Inl msg)"
  then show "impl_compute graph build q1 q2 = None"
    by (auto simp: impl_compute_def split: sum.splits)
next
  assume "getState graph q1 = Inr s1 \<and> getState graph q2 = Inr s2 \<and>
    getEdges graph s1 s2 = Inl msg"
  then show "impl_compute graph build q1 q2 = None"
    by (simp add: impl_compute_def)
next
  assume "getState graph q1 = Inr s1 \<and> getState graph q2 = Inr s2 \<and>
    getEdges graph s1 s2 = Inr []"
  then show "impl_compute graph build q1 q2 = None"
    by (simp add: impl_compute_def build_loop_Nil)
next
  assume h: "getState graph q1 = Inr s1 \<and> getState graph q2 = Inr s2 \<and>
    getEdges graph s1 s2 = Inr es \<and> every_build_fails build q1 q2 es"
  then have "build_loop build q1 q2 ([] @ es) None =
      build_loop build q1 q2 [] (path_after build q1 q2 es None)"
    by (intro build_loop_all_fail) (simp add: every_build_fails_iff)
  with h show "impl_compute graph build q1 q2 = None"
    by (simp add: impl_compute_def build_loop_Nil)
next
  assume h: "(\<forall>e p. fst (build e p q1 q2) \<longrightarrow> snd (build e p q1 q2) \<noteq> None) \<and>
    impl_compute graph build q1 q2 = None"
  show "(\<exists>msg. getState graph q1 = Inl msg) \<or> (\<exists>msg. getState graph q2 = Inl msg) \<or>
      (\<exists>s1 s2. getState graph q1 = Inr s1 \<and> getState graph q2 = Inr s2 \<and>
         ((\<exists>msg. getEdges graph s1 s2 = Inl msg) \<or>
          (\<exists>es. getEdges graph s1 s2 = Inr es \<and>
             (es = [] \<or> every_build_fails build q1 q2 es))))"
  proof (cases "getState graph q1")
    case Inl
    then show ?thesis by blast
  next
    case s1: (Inr s1)
    show ?thesis
    proof (cases "getState graph q2")
      case Inl
      then show ?thesis by blast
    next
      case s2: (Inr s2)
      show ?thesis
      proof (cases "getEdges graph s1 s2")
        case Inl
        with s1 s2 show ?thesis by blast
      next
        case (Inr es)
        with s1 s2 h have "build_loop build q1 q2 es None = None"
          by (simp add: impl_compute_def)
        from build_loop_None [OF h [THEN conjunct1] this]
        have "every_build_fails build q1 q2 es" by (simp add: every_build_fails_iff)
        with s1 s2 Inr show ?thesis by blast
      qed
    qed
  qed
qed

text \<open>
  In the scene, a call for each case: no state for the first or for the second
  configuration, \<^verbatim>\<open>getEdges\<close> throwing, no edge, and the one edge failing; and back from the
  null path of the last call to the failing attempts.
\<close>

theorem no_path_cases_witness:
  "impl_compute ex_steering_graph ex_build 99 15 = None \<and>
   impl_compute ex_steering_graph ex_build 5 99 = None \<and>
   impl_compute ex_steering_graph ex_build 75 15 = None \<and>
   impl_compute ex_steering_graph ex_build 5 25 = None \<and>
   impl_compute ex_steering_graph ex_build 15 5 = None \<and>
   every_build_fails ex_build 15 5 [3]"
proof -
  note t = no_path_cases [where graph = ex_steering_graph and build = ex_build]
  have 1: "impl_compute ex_steering_graph ex_build 99 15 = None"
    by (rule t [THEN conjunct1, rule_format]) (simp add: ex_steering_graph_def)
  have 2: "impl_compute ex_steering_graph ex_build 5 99 = None"
    by (rule t [THEN conjunct1, rule_format]) (simp add: ex_steering_graph_def)
  have 3: "impl_compute ex_steering_graph ex_build 75 15 = None"
    by (rule t [THEN conjunct2, THEN conjunct1, rule_format,
          where ?s1.0 = 7 and ?s2.0 = 1 and msg = "''no such state''"])
      (simp add: ex_steering_graph_def)
  have 4: "impl_compute ex_steering_graph ex_build 5 25 = None"
    by (rule t [THEN conjunct2, THEN conjunct2, THEN conjunct1, rule_format,
          where ?s1.0 = 0 and ?s2.0 = 2])
      (simp add: ex_steering_graph_def)
  have 5: "impl_compute ex_steering_graph ex_build 15 5 = None"
    by (rule t [THEN conjunct2, THEN conjunct2, THEN conjunct2, THEN conjunct1, rule_format,
          where ?s1.0 = 1 and ?s2.0 = 0 and es = "[3]"])
      (simp add: ex_steering_graph_def every_build_fails_def ex_build_def)
  have nn: "\<forall>e p. fst (ex_build e p 15 5) \<longrightarrow> snd (ex_build e p 15 5) \<noteq> None"
    by (simp add: ex_build_def)
  from t [THEN conjunct2, THEN conjunct2, THEN conjunct2, THEN conjunct2, rule_format,
      of 15 5, OF conjI [OF nn 5]]
  have 6: "every_build_fails ex_build 15 5 [3]"
    by (simp add: ex_steering_graph_def)
  from 1 2 3 4 5 6 show ?thesis by simp
qed

text \<open>
  Without the proviso there is one more case: an edge whose \<^verbatim>\<open>build\<close> returns true and
  leaves the path null.  The list holds one edge, the attempt on it does not fail, and
  the result is the null path, which line 85 returns as that \<^verbatim>\<open>build\<close> left it.
\<close>

theorem no_path_cases_counterexample:
  "getState ex_steering_graph 15 = Inr 1 \<and>
   getState ex_steering_graph 5 = Inr 0 \<and>
   getEdges ex_steering_graph 1 0 = Inr [3] \<and>
   ex_build_null 3 None 15 5 = (True, None) \<and>
   \<not> every_build_fails ex_build_null 15 5 [3] \<and>
   impl_compute ex_steering_graph ex_build_null 15 5 = None"
  by (simp add: ex_steering_graph_def ex_build_null_def every_build_fails_def
      impl_compute_def build_loop.simps [of _ _ _ "[3]"] build_loop_Nil)

section \<open>NodeSelector: the claim\<close>

text \<open>
  C9.  \<^verbatim>\<open>getState\<close> returns the first state of the ordered sequence that the
  configuration satisfies: the state of rank \<open>i\<close> is returned exactly when it is satisfied and
  no state of a lower rank is, and there is no result exactly when no state is satisfied.
  The result depends on the sequence and on which states are satisfied only: two calls
  with the same sequence and the same answers of the predicate give the same result.
\<close>

theorem getState_first_satisfied:
  "(NodeSelector_getState satisfies sel config = Some s \<longleftrightarrow>
      (\<exists>i<length (orderedStates sel). orderedStates sel ! i = s \<and> satisfies s config \<and>
         (\<forall>j<i. \<not> satisfies (orderedStates sel ! j) config))) \<and>
   (NodeSelector_getState satisfies sel config = None \<longleftrightarrow>
      (\<forall>s\<in>set (orderedStates sel). \<not> satisfies s config)) \<and>
   (orderedStates sel' = orderedStates sel \<and>
    (\<forall>s\<in>set (orderedStates sel). satisfies' s config' = satisfies s config) \<longrightarrow>
      NodeSelector_getState satisfies' sel' config' =
        NodeSelector_getState satisfies sel config)"
proof -
  have find: "first_satisfied sat xs c = List.find (\<lambda>s. sat s c) xs"
    for sat :: "'a \<Rightarrow> 'b \<Rightarrow> bool" and xs c
    by (induction xs) simp_all
  have det: "first_satisfied sat' xs c' = first_satisfied sat xs c"
    if "\<forall>s\<in>set xs. sat' s c' = sat s c"
    for sat :: "'a \<Rightarrow> 'b \<Rightarrow> bool" and sat' :: "'a \<Rightarrow> 'c \<Rightarrow> bool" and xs c c'
    using that by (induction xs) simp_all
  show ?thesis
  proof (intro conjI impI)
    show "NodeSelector_getState satisfies sel config = Some s \<longleftrightarrow>
      (\<exists>i<length (orderedStates sel). orderedStates sel ! i = s \<and> satisfies s config \<and>
         (\<forall>j<i. \<not> satisfies (orderedStates sel ! j) config))"
      unfolding NodeSelector_getState_def find find_Some_iff by blast
    show "NodeSelector_getState satisfies sel config = None \<longleftrightarrow>
      (\<forall>s\<in>set (orderedStates sel). \<not> satisfies s config)"
      unfolding NodeSelector_getState_def find find_None_iff by blast
  next
    assume "orderedStates sel' = orderedStates sel \<and>
      (\<forall>s\<in>set (orderedStates sel). satisfies' s config' = satisfies s config)"
    then show "NodeSelector_getState satisfies' sel' config' =
        NodeSelector_getState satisfies sel config"
      unfolding NodeSelector_getState_def by (auto intro: det)
  qed
qed

text \<open>
  The example of the specification: 5 is in A, - 1 is in B; without B, - 1 has no state;
  7 has the state of 5, since both satisfy the same states.
\<close>

theorem getState_first_satisfied_witness:
  "NodeSelector_getState ex_satisfies \<lparr>orderedStates = [''A'', ''B'']\<rparr> 5 = Some ''A'' \<and>
   NodeSelector_getState ex_satisfies \<lparr>orderedStates = [''A'', ''B'']\<rparr> (- 1) = Some ''B'' \<and>
   NodeSelector_getState ex_satisfies \<lparr>orderedStates = [''A'']\<rparr> (- 1) = None \<and>
   NodeSelector_getState ex_satisfies \<lparr>orderedStates = [''A'', ''B'']\<rparr> 7 =
     NodeSelector_getState ex_satisfies \<lparr>orderedStates = [''A'', ''B'']\<rparr> 5"
proof -
  note t = getState_first_satisfied [where satisfies = ex_satisfies]
  have "NodeSelector_getState ex_satisfies \<lparr>orderedStates = [''A'', ''B'']\<rparr> 5 = Some ''A''"
    by (rule t [THEN conjunct1, THEN iffD2], rule exI [of _ 0]) (simp add: ex_satisfies_def)
  moreover
  have "NodeSelector_getState ex_satisfies \<lparr>orderedStates = [''A'', ''B'']\<rparr> (- 1) = Some ''B''"
    by (rule t [THEN conjunct1, THEN iffD2], rule exI [of _ 1]) (simp add: ex_satisfies_def)
  moreover
  have "NodeSelector_getState ex_satisfies \<lparr>orderedStates = [''A'']\<rparr> (- 1) = None"
    by (rule t [THEN conjunct2, THEN conjunct1, THEN iffD2]) (simp add: ex_satisfies_def)
  moreover
  have "NodeSelector_getState ex_satisfies \<lparr>orderedStates = [''A'', ''B'']\<rparr> 7 =
     NodeSelector_getState ex_satisfies \<lparr>orderedStates = [''A'', ''B'']\<rparr> 5"
    by (rule getState_first_satisfied [THEN conjunct2, THEN conjunct2, rule_format])
      (simp add: ex_satisfies_def)
  ultimately show ?thesis by simp
qed

section \<open>GraphPathValidation without a constraint graph\<close>

text \<open>
  C10, amended.  \<^verbatim>\<open>create\<close> leaves the constraint graph null.  With the assertions
  compiled in, a return of \<open>validate\<close> implies that the graph is set and that \<^verbatim>\<open>getNode\<close>
  gives a node for the initial and for the end configuration of the valid part.  On the
  validator that \<^verbatim>\<open>create\<close> made, \<open>validate\<close> never returns: it stops at the assertion on
  the graph whenever \<^verbatim>\<open>impl_validate\<close> returns, or at the assertion on the direction;
  but where the wrapped validator rejects a path that is not composite, the call leaves
  by the \<^verbatim>\<open>std::logic_error\<close> of the first projection, or dereferences the null graph,
  before any assertion is reached.
\<close>

theorem null_graph_never_returns:
  assumes "W = create pv"
  shows "constraintGraph W = None \<and>
   (validate False ops V p reverse = Inr (success, validPart) \<longrightarrow>
      (\<exists>g n n'. constraintGraph V = Some g \<and>
         getNode g (initial ops validPart) = Inr (Some n) \<and>
         getNode g (end_config ops validPart) = Inr (Some n'))) \<and>
   (validate False ops W p reverse = Inl (AssertionFailed Assert_constraintGraph) \<or>
    validate False ops W p reverse = Inl (AssertionFailed Assert_not_reverse) \<or>
    validate False ops W p reverse =
      Inl (LogicError ''Initial configuration of the valid part cannot be projected.'') \<or>
    validate False ops W p reverse = Inl NullDereference) \<and>
   (impl_validate False ops W p reverse = Inr r \<longrightarrow>
    validate False ops W p reverse = Inl (AssertionFailed Assert_constraintGraph)) \<and>
   (pathValidation W (Atomic a) reverse = (False, pathNoCollision) \<longrightarrow>
    validate False ops W (Atomic a) reverse =
      (case config_at ops pathNoCollision (fst (timeRange ops pathNoCollision)) of
         None \<Rightarrow>
           Inl (LogicError ''Initial configuration of the valid part cannot be projected.'')
       | Some q \<Rightarrow> Inl NullDereference))"
proof (intro conjI impI)
  show null: "constraintGraph W = None" using assms by (simp add: create_def)
  assume "pathValidation W (Atomic a) reverse = (False, pathNoCollision)"
  then show "validate False ops W (Atomic a) reverse =
      (case config_at ops pathNoCollision (fst (timeRange ops pathNoCollision)) of
         None \<Rightarrow>
           Inl (LogicError ''Initial configuration of the valid part cannot be projected.'')
       | Some q \<Rightarrow> Inl NullDereference)"
    using null
    by (simp add: validate_def Let_def project_def graph_getNode_def split: option.splits)
next
  have null: "constraintGraph W = None" using assms by (simp add: create_def)
  from impl_validate_null_graph [OF null, of ops p reverse]
  show "validate False ops W p reverse = Inl (AssertionFailed Assert_constraintGraph) \<or>
    validate False ops W p reverse = Inl (AssertionFailed Assert_not_reverse) \<or>
    validate False ops W p reverse =
      Inl (LogicError ''Initial configuration of the valid part cannot be projected.'') \<or>
    validate False ops W p reverse = Inl NullDereference"
    using null by (auto simp: validate_def)
  assume "impl_validate False ops W p reverse = Inr r"
  then show "validate False ops W p reverse = Inl (AssertionFailed Assert_constraintGraph)"
    using null by (simp add: validate_def split: prod.splits)
next
  assume "validate False ops V p reverse = Inr (success, validPart)"
  then show "\<exists>g n n'. constraintGraph V = Some g \<and>
         getNode g (initial ops validPart) = Inr (Some n) \<and>
         getNode g (end_config ops validPart) = Inr (Some n')"
    by (auto simp: validate_def split: sum.splits option.splits prod.splits)
qed

text \<open>
  In the scene: a free piece stops at the assertion on the graph; with the graph set it
  is returned, and its two ends have a node.
\<close>

theorem null_graph_never_returns_witness:
  "constraintGraph (create ex_pv :: (ex_atom, ex_config, nat) graph_path_validation) = None \<and>
   validate False ex_ops (create ex_pv :: (ex_atom, ex_config, nat) graph_path_validation)
     (Atomic (0, 0, 4)) False = Inl (AssertionFailed Assert_constraintGraph) \<and>
   validate False ex_ops ex_V (Atomic (0, 0, 4)) False = Inr (True, Atomic (0, 0, 4)) \<and>
   getNode ex_graph (initial ex_ops (Atomic (0, 0, 4))) = Inr (Some 0) \<and>
   getNode ex_graph (end_config ex_ops (Atomic (0, 0, 4))) = Inr (Some 0)"
proof -
  define W :: "(ex_atom, ex_config, nat) graph_path_validation" where "W = create ex_pv"
  have iv: "impl_validate False ex_ops W (Atomic (0, 0, 4)) False = Inr (True, Atomic (0, 0, 4))"
    by (simp add: W_def create_def ex_pv_def)
  have v: "validate False ex_ops ex_V (Atomic (0, 0, 4)) False = Inr (True, Atomic (0, 0, 4))"
    by (simp add: validate_def ex_V_def ex_pv_def ex_graph_def ex_ops_def)
  note t = null_graph_never_returns [OF W_def, of ex_ops ex_V "Atomic (0, 0, 4)" False True
      "Atomic (0, 0, 4)" "(True, Atomic (0, 0, 4))"]
  from t have "constraintGraph W = None" by blast
  moreover from t iv
  have "validate False ex_ops W (Atomic (0, 0, 4)) False =
      Inl (AssertionFailed Assert_constraintGraph)"
    by blast
  moreover from t v obtain g n n' where "constraintGraph ex_V = Some g"
    "getNode g (initial ex_ops (Atomic (0, 0, 4))) = Inr (Some n)"
    "getNode g (end_config ex_ops (Atomic (0, 0, 4))) = Inr (Some n')"
    by blast
  then have "getNode ex_graph (initial ex_ops (Atomic (0, 0, 4))) = Inr (Some 0) \<and>
    getNode ex_graph (end_config ex_ops (Atomic (0, 0, 4))) = Inr (Some 0)"
    by (auto simp: ex_V_def ex_graph_def ex_ops_def)
  ultimately show ?thesis using v unfolding W_def by simp
qed

text \<open>
  Two calls on the validator that \<^verbatim>\<open>create\<close> made that do not stop at an assertion:
  the first leaves by a \<^verbatim>\<open>std::logic_error\<close>, the second dereferences the null graph.
\<close>

theorem null_graph_aborts_counterexample:
  "validate False ex_ops (create ex_pv :: (ex_atom, ex_config, nat) graph_path_validation)
     (Atomic (3, 0, 4)) False =
     Inl (LogicError ''Initial configuration of the valid part cannot be projected.'') \<and>
   validate False ex_ops (create ex_pv :: (ex_atom, ex_config, nat) graph_path_validation)
     (Atomic (1, 0, 4)) False = Inl NullDereference"
  by (simp add: validate_def create_def ex_pv_def project_def graph_getNode_def
      ex_timeRange ex_config_at ex_point_def)

end
